theory Spec2Isabelle
  imports Complex_Main "HOL-Library.Signed_Division"
begin

section \<open>Tokens (lexer.hpp)\<close>

text \<open>
  \<^verbatim>\<open>enum class TokenType\<close>.  The enumerators are written \<open>T_X\<close> for
  \<^verbatim>\<open>TokenType::X\<close>, because \<open>If\<close>, \<open>Let\<close>, \<open>Char\<close> and \<open>Plus\<close> are constants of HOL.
\<close>

datatype TokenType =
    T_Fn | T_Let | T_Return | T_If | T_Else | T_Print
  | T_Identifier | T_Integer | T_Float | T_String | T_Char | T_Bool
  | T_IntType | T_FloatType | T_StringType | T_CharType | T_BoolType | T_VoidType
  | T_Colon | T_Arrow | T_Eq | T_EqEq | T_Neq | T_Leq | T_Geq
  | T_Plus | T_Minus | T_Star | T_Slash | T_Bang
  | T_PlusAssign | T_MinusAssign | T_StarAssign | T_SlashAssign
  | T_Less | T_Greater
  | T_LParen | T_RParen | T_LBrace | T_RBrace | T_Semi | T_Comma
  | T_Eof

text \<open>\<^verbatim>\<open>struct Token { TokenType type; std::string lexeme; int line; int col; }\<close>\<close>

datatype Token = Token (tok_type: TokenType) (lexeme: string) (tok_line: int) (tok_col: int)

section \<open>Diagnostics (error.hpp, error.cpp)\<close>

text \<open>
  \<^verbatim>\<open>class LexerError\<close> with its fields \<^verbatim>\<open>message, line, col, sourceLine\<close>; the
  field \<^verbatim>\<open>formattedMessage\<close> is \<open>formatMessage\<close> of the other four.
\<close>

datatype LexerError =
  LexerError (message: string) (err_line: int) (err_col: int) (sourceLine: string)

text \<open>
  What the front end throws: a \<^verbatim>\<open>LexerError\<close> (lexer), a \<^verbatim>\<open>std::runtime_error\<close>
  with its message (parser), or the \<^verbatim>\<open>std::out_of_range\<close> of \<^verbatim>\<open>std::stoll\<close>.
\<close>

datatype exception =
    Lexer_exn LexerError
  | runtime_error string
  | out_of_range string

text \<open>\<^verbatim>\<open>expandTabs(line, tabSize = 4)\<close>: every tab becomes \<^verbatim>\<open>tabSize\<close> spaces.\<close>

fun expandTabs :: "string \<Rightarrow> string" where
  "expandTabs [] = []"
| "expandTabs (c # cs) =
     (if c = CHR 0x09 then replicate 4 CHR '' '' @ expandTabs cs else c # expandTabs cs)"

text \<open>
  \<^verbatim>\<open>visualColumn(line, col, tabSize = 4)\<close>: the loop
  \<^verbatim>\<open>for (i = 0; i < col - 1 && i < line.size(); i++)\<close> over the characters, with the
  running \<^verbatim>\<open>visualCol\<close> as accumulator.
\<close>

fun visualColumn_loop :: "string \<Rightarrow> int \<Rightarrow> nat \<Rightarrow> nat \<Rightarrow> nat" where
  "visualColumn_loop [] col i visualCol = visualCol"
| "visualColumn_loop (c # cs) col i visualCol =
     (if int i < col - 1
      then visualColumn_loop cs col (i + 1)
             (if c = CHR 0x09 then visualCol + (4 - visualCol mod 4) else visualCol + 1)
      else visualCol)"

definition visualColumn :: "string \<Rightarrow> int \<Rightarrow> nat" where
  "visualColumn srcLine col = visualColumn_loop srcLine col 0 0"

text \<open>Decimal output of an \<^verbatim>\<open>int\<close>, as \<^verbatim>\<open>operator<<\<close> prints it.\<close>

definition digit_char :: "nat \<Rightarrow> char" where
  "digit_char d = char_of (48 + d)"

fun show_nat :: "nat \<Rightarrow> string" where
  "show_nat n = (if n < 10 then [digit_char n] else show_nat (n div 10) @ [digit_char (n mod 10)])"

definition show_int :: "int \<Rightarrow> string" where
  "show_int i = (if i < 0 then CHR ''-'' # show_nat (nat (- i)) else show_nat (nat i))"

text \<open>\<^verbatim>\<open>LexerError::formatMessage\<close>\<close>

definition formatMessage :: "LexerError \<Rightarrow> string" where
  "formatMessage e =
     ''Lexer error at line '' @ show_int (err_line e) @ '', col '' @ show_int (err_col e)
       @ '': '' @ message e @ [CHR 0x0A]
     @ (if sourceLine e \<noteq> []
        then expandTabs (sourceLine e) @ [CHR 0x0A]
               @ replicate (visualColumn (sourceLine e) (err_col e)) CHR '' '' @ ''^''
        else [])"

section \<open>Lexer (lexer.hpp, lexer.cpp)\<close>

text \<open>
  \<^verbatim>\<open>class Lexer\<close>: the source buffer and the cursor \<^verbatim>\<open>pos, line, col\<close>.  The field
  \<^verbatim>\<open>length\<close> is set to \<^verbatim>\<open>src.size()\<close> by the constructor and never written again, so it
  is read off the buffer.  The \<^verbatim>\<open>int\<close> counters \<^verbatim>\<open>line\<close> and \<^verbatim>\<open>col\<close> are integers
  without a bound: they only count characters of the buffer.
\<close>

record Lexer =
  source :: string
  pos :: nat
  line :: int
  col :: int

definition Lexer_ctor :: "string \<Rightarrow> Lexer" where
  "Lexer_ctor src = \<lparr>source = src, pos = 0, line = 1, col = 1\<rparr>"

text \<open>
  The \<^verbatim>\<open><cctype>\<close> classifiers in the "C" locale.  Bytes from 128 on are in no class.
\<close>

definition isspace :: "char \<Rightarrow> bool" where
  "isspace c = (c = CHR '' '' \<or> (9 \<le> (of_char c :: nat) \<and> (of_char c :: nat) \<le> 13))"

definition isdigit :: "char \<Rightarrow> bool" where
  "isdigit c = (48 \<le> (of_char c :: nat) \<and> (of_char c :: nat) \<le> 57)"

definition isalpha :: "char \<Rightarrow> bool" where
  "isalpha c = ((65 \<le> (of_char c :: nat) \<and> (of_char c :: nat) \<le> 90)
              \<or> (97 \<le> (of_char c :: nat) \<and> (of_char c :: nat) \<le> 122))"

definition isalnum :: "char \<Rightarrow> bool" where
  "isalnum c = (isalpha c \<or> isdigit c)"

text \<open>\<^verbatim>\<open>source.substr(start, n)\<close> for \<open>start \<le> size\<close>.\<close>

definition substr :: "string \<Rightarrow> nat \<Rightarrow> nat \<Rightarrow> string" where
  "substr s start n = take n (drop start s)"

definition peek :: "Lexer \<Rightarrow> nat \<Rightarrow> char" where
  "peek lx offset =
     (if pos lx + offset \<ge> length (source lx) then CHR 0x00
      else source lx ! (pos lx + offset))"

text \<open>
  \<^verbatim>\<open>Lexer::advance\<close> returns the character and moves the cursor.  \<^verbatim>\<open>%\<close> on \<^verbatim>\<open>int\<close>
  truncates towards zero: \<open>smod\<close>.
\<close>

definition Lexer_advance :: "Lexer \<Rightarrow> char \<times> Lexer" where
  "Lexer_advance lx =
     (if pos lx \<ge> length (source lx) then (CHR 0x00, lx)
      else let c = source lx ! pos lx; lx1 = lx\<lparr>pos := pos lx + 1\<rparr> in
        if c = CHR 0x0A then (c, lx1\<lparr>line := line lx1 + 1, col := 1\<rparr>)
        else if c = CHR 0x09 then (c, lx1\<lparr>col := col lx1 + (4 - ((col lx1 - 1) smod 4))\<rparr>)
        else (c, lx1\<lparr>col := col lx1 + 1\<rparr>))"

definition Lexer_match :: "Lexer \<Rightarrow> char \<Rightarrow> bool \<times> Lexer" where
  "Lexer_match lx expected =
     (if peek lx 0 = expected then (True, snd (Lexer_advance lx)) else (False, lx))"

text \<open>\<^verbatim>\<open>Lexer::getCurrentLine\<close>: its two loops, then the \<^verbatim>\<open>substr\<close>.\<close>

fun lineStart_loop :: "string \<Rightarrow> nat \<Rightarrow> nat" where
  "lineStart_loop src 0 = 0"
| "lineStart_loop src (Suc k) =
     (if src ! k \<noteq> CHR 0x0A then lineStart_loop src k else Suc k)"

function lineEnd_loop :: "string \<Rightarrow> nat \<Rightarrow> nat" where
  "lineEnd_loop src lineEnd =
     (if lineEnd < length src \<and> src ! lineEnd \<noteq> CHR 0x0A
      then lineEnd_loop src (lineEnd + 1) else lineEnd)"
  by pat_completeness auto
termination
  by (relation "measure (\<lambda>(src, lineEnd). length src - lineEnd)") auto

definition getCurrentLine :: "Lexer \<Rightarrow> string" where
  "getCurrentLine lx =
     (if pos lx = 0 then []
      else let lineStart = lineStart_loop (source lx) (pos lx - 1);
               lineEnd = lineEnd_loop (source lx) lineStart
           in substr (source lx) lineStart (lineEnd - lineStart))"

text \<open>\<^verbatim>\<open>Lexer::error\<close> builds the exception object that the caller throws.\<close>

definition Lexer_error :: "Lexer \<Rightarrow> string \<Rightarrow> exception" where
  "Lexer_error lx msg =
     Lexer_exn (LexerError msg (line lx) (if col lx > 1 then col lx - 1 else 1) (getCurrentLine lx))"

text \<open>
  \<^verbatim>\<open>throw error(msg)\<close>.  No method of the lexer catches anything, so a throw leaves the
  lexer object as it is at that moment.  A method that can throw returns a sum: on the
  left the exception together with the lexer as the throw left it, on the right the
  result together with the lexer after the call.
\<close>

definition Lexer_throw :: "Lexer \<Rightarrow> string \<Rightarrow> (exception \<times> Lexer) + 'a" where
  "Lexer_throw lx msg = Inl (Lexer_error lx msg, lx)"

lemma Lexer_throw_not_Inr [simp]: "Lexer_throw lx msg \<noteq> Inr x"
  by (simp add: Lexer_throw_def)

subsection \<open>The cursor only moves forward\<close>

lemma Lexer_advance_source [simp]: "source (snd (Lexer_advance lx)) = source lx"
  by (simp add: Lexer_advance_def Let_def)

lemma Lexer_advance_pos:
  "pos (snd (Lexer_advance lx)) = (if pos lx \<ge> length (source lx) then pos lx else pos lx + 1)"
  by (simp add: Lexer_advance_def Let_def)

lemma Lexer_advance_fst: "fst (Lexer_advance lx) = peek lx 0"
  by (simp add: Lexer_advance_def peek_def Let_def)

lemma peek_nonzero_in_range: "peek lx 0 \<noteq> CHR 0x00 \<Longrightarrow> pos lx < length (source lx)"
  by (simp add: peek_def split: if_splits)

lemma Lexer_advance_measure:
  "peek lx 0 \<noteq> CHR 0x00 \<Longrightarrow>
   length (source lx) - pos (snd (Lexer_advance lx)) < length (source lx) - pos lx"
  using peek_nonzero_in_range [of lx] by (simp add: Lexer_advance_pos)

lemma isspace_nonzero: "isspace c \<Longrightarrow> c \<noteq> CHR 0x00"
  by (auto simp: isspace_def)

lemma isdigit_nonzero: "isdigit c \<Longrightarrow> c \<noteq> CHR 0x00"
  by (auto simp: isdigit_def)

lemma isalpha_nonzero: "isalpha c \<Longrightarrow> c \<noteq> CHR 0x00"
  by (auto simp: isalpha_def)

lemma isalnum_nonzero: "isalnum c \<Longrightarrow> c \<noteq> CHR 0x00"
  by (auto simp: isalnum_def dest: isalpha_nonzero isdigit_nonzero)

subsection \<open>Whitespace and comments\<close>

text \<open>
  The inner loop of the \<^verbatim>\<open>//\<close> branch:
  \<^verbatim>\<open>while (peek() != '\n' && peek() != '\0') advance();\<close>
\<close>

function lineComment_loop :: "Lexer \<Rightarrow> Lexer" where
  "lineComment_loop lx =
     (if peek lx 0 \<noteq> CHR 0x0A \<and> peek lx 0 \<noteq> CHR 0x00
      then lineComment_loop (snd (Lexer_advance lx)) else lx)"
  by pat_completeness auto
termination
  by (relation "measure (\<lambda>lx. length (source lx) - pos lx)")
     (auto intro: Lexer_advance_measure)

declare lineComment_loop.simps [simp del]

text \<open>
  The inner loop of the \<^verbatim>\<open>/*\<close> branch:
  \<^verbatim>\<open>while (!(peek() == '*' && peek(1) == '/')) { if (peek() == '\0') throw ...; advance(); }\<close>
\<close>

function blockComment_loop :: "Lexer \<Rightarrow> (exception \<times> Lexer) + Lexer" where
  "blockComment_loop lx =
     (if \<not> (peek lx 0 = CHR ''*'' \<and> peek lx 1 = CHR ''/'')
      then (if peek lx 0 = CHR 0x00
            then Lexer_throw lx ''Unterminated block comment''
            else blockComment_loop (snd (Lexer_advance lx)))
      else Inr lx)"
  by pat_completeness auto
termination
  by (relation "measure (\<lambda>lx. length (source lx) - pos lx)")
     (auto intro: Lexer_advance_measure)

declare blockComment_loop.simps [simp del]

lemma lineComment_loop_source [simp]: "source (lineComment_loop lx) = source lx"
  by (induction lx rule: lineComment_loop.induct)
     (subst lineComment_loop.simps, simp)

lemma lineComment_loop_pos: "pos lx \<le> pos (lineComment_loop lx)"
proof (induction lx rule: lineComment_loop.induct)
  case (1 lx)
  show ?case
  proof (cases "peek lx 0 \<noteq> CHR 0x0A \<and> peek lx 0 \<noteq> CHR 0x00")
    case True
    then have "pos (snd (Lexer_advance lx)) \<le> pos (lineComment_loop (snd (Lexer_advance lx)))"
      using "1.IH" by simp
    moreover have "pos lx \<le> pos (snd (Lexer_advance lx))"
      by (simp add: Lexer_advance_pos)
    ultimately show ?thesis
      using True by (subst lineComment_loop.simps) simp
  next
    case False
    then show ?thesis by (subst lineComment_loop.simps) auto
  qed
qed

lemma lineComment_loop_progress:
  assumes "peek lx 0 = CHR ''/''"
  shows "pos lx < pos (lineComment_loop lx)"
proof -
  from assms have nz: "peek lx 0 \<noteq> CHR 0x00" by simp
  have "lineComment_loop lx = lineComment_loop (snd (Lexer_advance lx))"
    using assms by (subst lineComment_loop.simps) simp
  moreover have "pos (snd (Lexer_advance lx)) = pos lx + 1"
    using peek_nonzero_in_range [OF nz] by (simp add: Lexer_advance_pos)
  ultimately show ?thesis
    using lineComment_loop_pos [of "snd (Lexer_advance lx)"] by simp
qed

lemma blockComment_loop_source:
  "blockComment_loop lx = Inr lx' \<Longrightarrow> source lx' = source lx"
proof (induction lx rule: blockComment_loop.induct)
  case (1 lx)
  show ?case
  proof (cases "peek lx 0 = CHR ''*'' \<and> peek lx 1 = CHR ''/''")
    case True
    with "1.prems" show ?thesis
      by (subst (asm) blockComment_loop.simps) simp
  next
    case False
    with "1.prems" have nz: "peek lx 0 \<noteq> CHR 0x00"
      and rec: "blockComment_loop (snd (Lexer_advance lx)) = Inr lx'"
      by (subst (asm) blockComment_loop.simps, simp split: if_splits)+
    from "1.IH" [OF False nz rec] show ?thesis by simp
  qed
qed

lemma blockComment_loop_pos:
  "blockComment_loop lx = Inr lx' \<Longrightarrow> pos lx \<le> pos lx'"
proof (induction lx rule: blockComment_loop.induct)
  case (1 lx)
  show ?case
  proof (cases "peek lx 0 = CHR ''*'' \<and> peek lx 1 = CHR ''/''")
    case True
    with "1.prems" show ?thesis
      by (subst (asm) blockComment_loop.simps) simp
  next
    case False
    with "1.prems" have nz: "peek lx 0 \<noteq> CHR 0x00"
      and rec: "blockComment_loop (snd (Lexer_advance lx)) = Inr lx'"
      by (subst (asm) blockComment_loop.simps, simp split: if_splits)+
    have "pos lx \<le> pos (snd (Lexer_advance lx))"
      by (simp add: Lexer_advance_pos)
    with "1.IH" [OF False nz rec] show ?thesis by simp
  qed
qed

lemma blockComment_loop_star:
  "blockComment_loop lx = Inr lx' \<Longrightarrow> peek lx' 0 = CHR ''*''"
proof (induction lx rule: blockComment_loop.induct)
  case (1 lx)
  show ?case
  proof (cases "peek lx 0 = CHR ''*'' \<and> peek lx 1 = CHR ''/''")
    case True
    with "1.prems" show ?thesis
      by (subst (asm) blockComment_loop.simps) auto
  next
    case False
    with "1.prems" have nz: "peek lx 0 \<noteq> CHR 0x00"
      and rec: "blockComment_loop (snd (Lexer_advance lx)) = Inr lx'"
      by (subst (asm) blockComment_loop.simps, simp split: if_splits)+
    from "1.IH" [OF False nz rec] show ?thesis .
  qed
qed

text \<open>\<^verbatim>\<open>Lexer::skipWhitespaceAndComments\<close>: the outer \<^verbatim>\<open>while (true)\<close>.\<close>

function skipWhitespaceAndComments :: "Lexer \<Rightarrow> (exception \<times> Lexer) + Lexer" where
  "skipWhitespaceAndComments lx =
     (let c = peek lx 0 in
      if isspace c then skipWhitespaceAndComments (snd (Lexer_advance lx))
      else if c = CHR ''/'' \<and> peek lx 1 = CHR ''/''
        then skipWhitespaceAndComments (lineComment_loop lx)
      else if c = CHR ''/'' \<and> peek lx 1 = CHR ''*''
        then (case blockComment_loop (snd (Lexer_advance (snd (Lexer_advance lx)))) of
                Inl e \<Rightarrow> Inl e
              | Inr lx1 \<Rightarrow>
                  skipWhitespaceAndComments (snd (Lexer_advance (snd (Lexer_advance lx1)))))
      else Inr lx)"
  by pat_completeness auto
termination
proof (relation "measure (\<lambda>lx. length (source lx) - pos lx)", goal_cases)
  case 1
  show ?case by simp
next
  case (2 lx c)
  then show ?case
    using Lexer_advance_measure [of lx] by (auto dest: isspace_nonzero)
next
  case (3 lx c)
  then have "pos lx < pos (lineComment_loop lx)"
    by (auto intro: lineComment_loop_progress)
  moreover have "pos lx < length (source lx)"
    using 3 by (auto intro: peek_nonzero_in_range)
  ultimately show ?case by auto
next
  case (4 lx c lx1)
  let ?a = "snd (Lexer_advance (snd (Lexer_advance lx)))"
  from 4 have bc: "blockComment_loop ?a = Inr lx1" by simp
  have src: "source lx1 = source lx"
    using blockComment_loop_source [OF bc] by simp
  have "pos lx \<le> pos ?a" by (simp add: Lexer_advance_pos)
  then have le: "pos lx \<le> pos lx1"
    using blockComment_loop_pos [OF bc] by simp
  have "peek lx1 0 \<noteq> CHR 0x00"
    using blockComment_loop_star [OF bc] by simp
  then have lt: "pos lx1 < length (source lx1)" by (rule peek_nonzero_in_range)
  then have "pos (snd (Lexer_advance lx1)) = pos lx1 + 1"
    by (simp add: Lexer_advance_pos)
  then have "pos lx1 < pos (snd (Lexer_advance (snd (Lexer_advance lx1))))"
    by (simp add: Lexer_advance_pos)
  with le lt src show ?case by simp
qed

declare skipWhitespaceAndComments.simps [simp del]

subsection \<open>Identifiers, numbers, strings\<close>

text \<open>The keyword table of \<^verbatim>\<open>Lexer::identifierOrKeyword\<close>.\<close>

definition keywords_table :: "(string \<times> TokenType) list" where
  "keywords_table = [(''fn'', T_Fn), (''let'', T_Let), (''if'', T_If), (''else'', T_Else),
               (''return'', T_Return)]"

text \<open>\<^verbatim>\<open>while (std::isalnum(peek()) || peek() == '_') advance();\<close>\<close>

function identifier_loop :: "Lexer \<Rightarrow> Lexer" where
  "identifier_loop lx =
     (if isalnum (peek lx 0) \<or> peek lx 0 = CHR ''_''
      then identifier_loop (snd (Lexer_advance lx)) else lx)"
  by pat_completeness auto
termination
  by (relation "measure (\<lambda>lx. length (source lx) - pos lx)")
     (auto intro: Lexer_advance_measure dest: isalnum_nonzero)

declare identifier_loop.simps [simp del]

definition identifierOrKeyword :: "Lexer \<Rightarrow> Token \<times> Lexer" where
  "identifierOrKeyword lx =
     (let startPos = pos lx; startCol = col lx; startLine = line lx;
          lx1 = identifier_loop lx;
          text = substr (source lx1) startPos (pos lx1 - startPos)
      in case map_of keywords_table text of
           Some t \<Rightarrow> (Token t text startLine startCol, lx1)
         | None \<Rightarrow> (Token T_Identifier text startLine startCol, lx1))"

text \<open>\<^verbatim>\<open>while (std::isdigit(peek())) advance();\<close>\<close>

function digits_loop :: "Lexer \<Rightarrow> Lexer" where
  "digits_loop lx =
     (if isdigit (peek lx 0) then digits_loop (snd (Lexer_advance lx)) else lx)"
  by pat_completeness auto
termination
  by (relation "measure (\<lambda>lx. length (source lx) - pos lx)")
     (auto intro: Lexer_advance_measure dest: isdigit_nonzero)

declare digits_loop.simps [simp del]

definition number :: "Lexer \<Rightarrow> Token \<times> Lexer" where
  "number lx =
     (let startPos = pos lx; startCol = col lx; startLine = line lx;
          lx1 = digits_loop lx;
          (isFloat, lx2) =
             (if peek lx1 0 = CHR ''.'' \<and> isdigit (peek lx1 1)
              then (True, digits_loop (snd (Lexer_advance lx1)))
              else (False, lx1));
          num = substr (source lx2) startPos (pos lx2 - startPos)
      in (Token (if isFloat then T_Float else T_Integer) num startLine startCol, lx2))"

lemma Lexer_advance_char:
  "(c, lx') = Lexer_advance lx \<Longrightarrow> c \<noteq> CHR 0x00 \<Longrightarrow>
   source lx' = source lx \<and> pos lx' = pos lx + 1 \<and> pos lx < length (source lx)"
  by (auto simp: Lexer_advance_def Let_def split: if_splits)

text \<open>
  The \<^verbatim>\<open>while (true)\<close> of \<^verbatim>\<open>Lexer::string\<close>, with \<^verbatim>\<open>value\<close> as accumulator; it
  returns the value and the lexer after the closing quote.
\<close>

function string_loop ::
  "Lexer \<Rightarrow> string \<Rightarrow> (exception \<times> Lexer) + (string \<times> Lexer)" where
  "string_loop lx val =
     (case Lexer_advance lx of (c, lx1) \<Rightarrow>
        if c = CHR 0x00 then Lexer_throw lx1 ''Unterminated string''
        else if c = CHR 0x22 then Inr (val, lx1)
        else if c = CHR 0x5C then
          (case Lexer_advance lx1 of (e, lx2) \<Rightarrow>
             if e = CHR ''n'' then string_loop lx2 (val @ [CHR 0x0A])
             else if e = CHR ''t'' then string_loop lx2 (val @ [CHR 0x09])
             else if e = CHR 0x5C then string_loop lx2 (val @ [CHR 0x5C])
             else if e = CHR 0x22 then string_loop lx2 (val @ [CHR 0x22])
             else Lexer_throw lx2 ''Invalid escape sequence'')
        else string_loop lx1 (val @ [c]))"
  by pat_completeness auto
termination
  by (relation "measure (\<lambda>(lx, val). length (source lx) - pos lx)")
     (auto dest!: Lexer_advance_char)

declare string_loop.simps [simp del]

text \<open>\<^verbatim>\<open>Lexer::string\<close>: it starts with an \<^verbatim>\<open>advance()\<close> of its own.\<close>

definition string_lit :: "Lexer \<Rightarrow> (exception \<times> Lexer) + (Token \<times> Lexer)" where
  "string_lit lx =
     (let startCol = col lx; startLine = line lx;
          lx1 = snd (Lexer_advance lx)
      in case string_loop lx1 [] of
           Inl e \<Rightarrow> Inl e
         | Inr (val, lx2) \<Rightarrow> Inr (Token T_String val startLine startCol, lx2))"

subsection \<open>\<^verbatim>\<open>Lexer::nextToken\<close> and \<^verbatim>\<open>Lexer::peekToken\<close>\<close>

text \<open>
  The \<^verbatim>\<open>switch\<close> on the consumed character, then the identifier and number tests, then
  the \<^verbatim>\<open>throw\<close>.  \<^verbatim>\<open>pos--\<close> before \<^verbatim>\<open>identifierOrKeyword()\<close> and \<^verbatim>\<open>number()\<close> moves
  only \<^verbatim>\<open>pos\<close> back, not \<^verbatim>\<open>col\<close>.
\<close>

definition nextToken :: "Lexer \<Rightarrow> (exception \<times> Lexer) + (Token \<times> Lexer)" where
  "nextToken lx =
     (case skipWhitespaceAndComments lx of
        Inl e \<Rightarrow> Inl e
      | Inr lx0 \<Rightarrow>
        if pos lx0 \<ge> length (source lx0) then Inr (Token T_Eof [] (line lx0) (col lx0), lx0)
        else case Lexer_advance lx0 of (c, lx1) \<Rightarrow>
        let startLine = line lx1; startCol = col lx1 - 1 in
        if c = CHR ''('' then Inr (Token T_LParen ''('' startLine startCol, lx1)
        else if c = CHR '')'' then Inr (Token T_RParen '')'' startLine startCol, lx1)
        else if c = CHR ''{'' then Inr (Token T_LBrace ''{'' startLine startCol, lx1)
        else if c = CHR ''}'' then Inr (Token T_RBrace ''}'' startLine startCol, lx1)
        else if c = CHR '','' then Inr (Token T_Comma '','' startLine startCol, lx1)
        else if c = CHR '':'' then Inr (Token T_Colon '':'' startLine startCol, lx1)
        else if c = CHR '';'' then Inr (Token T_Semi '';'' startLine startCol, lx1)
        else if c = CHR ''+'' then
          (case Lexer_match lx1 CHR ''='' of
             (True, lx2) \<Rightarrow> Inr (Token T_PlusAssign ''+='' startLine startCol, lx2)
           | (False, lx2) \<Rightarrow> Inr (Token T_Plus ''+'' startLine startCol, lx2))
        else if c = CHR ''-'' then
          (case Lexer_match lx1 CHR ''>'' of
             (True, lx2) \<Rightarrow> Inr (Token T_Arrow ''->'' startLine startCol, lx2)
           | (False, lx2) \<Rightarrow>
               (case Lexer_match lx2 CHR ''='' of
                  (True, lx3) \<Rightarrow> Inr (Token T_MinusAssign ''-='' startLine startCol, lx3)
                | (False, lx3) \<Rightarrow> Inr (Token T_Minus ''-'' startLine startCol, lx3)))
        else if c = CHR ''*'' then
          (case Lexer_match lx1 CHR ''='' of
             (True, lx2) \<Rightarrow> Inr (Token T_StarAssign ''*='' startLine startCol, lx2)
           | (False, lx2) \<Rightarrow> Inr (Token T_Star ''*'' startLine startCol, lx2))
        else if c = CHR ''/'' then
          (case Lexer_match lx1 CHR ''='' of
             (True, lx2) \<Rightarrow> Inr (Token T_SlashAssign ''/='' startLine startCol, lx2)
           | (False, lx2) \<Rightarrow> Inr (Token T_Slash ''/'' startLine startCol, lx2))
        else if c = CHR ''='' then
          (case Lexer_match lx1 CHR ''='' of
             (True, lx2) \<Rightarrow> Inr (Token T_EqEq ''=='' startLine startCol, lx2)
           | (False, lx2) \<Rightarrow> Inr (Token T_Eq ''='' startLine startCol, lx2))
        else if c = CHR ''!'' then
          (case Lexer_match lx1 CHR ''='' of
             (True, lx2) \<Rightarrow> Inr (Token T_Neq ''!='' startLine startCol, lx2)
           | (False, lx2) \<Rightarrow> Inr (Token T_Bang ''!'' startLine startCol, lx2))
        else if c = CHR ''<'' then
          (case Lexer_match lx1 CHR ''='' of
             (True, lx2) \<Rightarrow> Inr (Token T_Leq ''<='' startLine startCol, lx2)
           | (False, lx2) \<Rightarrow> Inr (Token T_Less ''<'' startLine startCol, lx2))
        else if c = CHR ''>'' then
          (case Lexer_match lx1 CHR ''='' of
             (True, lx2) \<Rightarrow> Inr (Token T_Geq ''>='' startLine startCol, lx2)
           | (False, lx2) \<Rightarrow> Inr (Token T_Greater ''>'' startLine startCol, lx2))
        else if c = CHR 0x22 then string_lit lx1
        else if isalpha c \<or> c = CHR ''_'' then Inr (identifierOrKeyword (lx1\<lparr>pos := pos lx1 - 1\<rparr>))
        else if isdigit c then Inr (number (lx1\<lparr>pos := pos lx1 - 1\<rparr>))
        else Lexer_throw lx1 (''Unexpected character: '' @ [c]))"

text \<open>
  \<^verbatim>\<open>Lexer::peekToken\<close> has no \<^verbatim>\<open>try\<close>: when \<^verbatim>\<open>nextToken()\<close> throws, the three
  restoring assignments are skipped and the lexer stays as the throw left it.
\<close>

definition peekToken :: "Lexer \<Rightarrow> (exception \<times> Lexer) + (Token \<times> Lexer)" where
  "peekToken lx =
     (let savedPos = pos lx; savedLine = line lx; savedCol = col lx in
      case nextToken lx of
        Inl (e, lx1) \<Rightarrow> Inl (e, lx1)
      | Inr (tok, lx1) \<Rightarrow> Inr (tok, lx1\<lparr>pos := savedPos, line := savedLine, col := savedCol\<rparr>))"

section \<open>Syntax tree (ast.hpp)\<close>

text \<open>\<^verbatim>\<open>enum class VarType\<close>, written \<open>V_X\<close> for \<^verbatim>\<open>VarType::X\<close>.\<close>

datatype VarType = V_Int | V_Float | V_String | V_Char | V_Bool | V_Void

text \<open>
  The classes derived from \<^verbatim>\<open>ASTNode\<close>, one constructor each, with an \<^verbatim>\<open>ASTPtr\<close> field
  as a subtree.  A null \<^verbatim>\<open>init\<close> of \<^verbatim>\<open>LetDecl\<close> is \<open>None\<close>.  The \<^verbatim>\<open>double\<close> of
  \<^verbatim>\<open>DoubleExpr\<close> is the real number it stands for.
\<close>

datatype ASTNode =
    IntExpr int
  | DoubleExpr real
  | StringExpr string
  | CharExpr char
  | BoolExpr bool
  | VoidExpr
  | VarExpr string
  | BinaryExpr string ASTNode ASTNode
  | CallExpr string "ASTNode list"
  | ReturnStmt ASTNode
  | IfStmt ASTNode "ASTNode list" "ASTNode list"
  | LetDecl string VarType "ASTNode option"
  | BlockStmt "ASTNode list"
  | Function string VarType "(string \<times> VarType) list" ASTNode
  | Program "ASTNode list"

section \<open>Parser (parser.hpp, parser.cpp)\<close>

text \<open>
  \<^verbatim>\<open>class Parser\<close>: the lexer it reads from (held by reference, so its cursor is part of
  the parser's state) and the one token of lookahead.
\<close>

record Parser =
  lexer :: Lexer
  current :: Token

definition stringToVarType :: "string \<Rightarrow> exception + VarType" where
  "stringToVarType s =
     (if s = ''Int'' then Inr V_Int
      else if s = ''Float'' then Inr V_Float
      else if s = ''String'' then Inr V_String
      else if s = ''Char'' then Inr V_Char
      else if s = ''Bool'' then Inr V_Bool
      else if s = ''Void'' then Inr V_Void
      else Inl (runtime_error (''Unknown type: '' @ s)))"

fun isTypeToken :: "TokenType \<Rightarrow> bool" where
  "isTypeToken T_IntType = True"
| "isTypeToken T_FloatType = True"
| "isTypeToken T_CharType = True"
| "isTypeToken T_BoolType = True"
| "isTypeToken T_StringType = True"
| "isTypeToken T_VoidType = True"
| "isTypeToken _ = False"

text \<open>
  \<^verbatim>\<open>std::stoll\<close> on the lexeme of an Integer token (decimal digits only): the value, or
  \<^verbatim>\<open>std::out_of_range\<close> beyond \<^verbatim>\<open>LLONG_MAX\<close>.
\<close>

definition stoll :: "string \<Rightarrow> exception + int" where
  "stoll s =
     (let v = foldl (\<lambda>acc c. 10 * acc + (int (of_char c) - 48)) 0 s in
      if v > 9223372036854775807 then Inl (out_of_range ''stoll'') else Inr v)"

text \<open>
  \<^verbatim>\<open>std::stof\<close> belongs to the C++ library, not to this program: on the lexeme of a Float
  token it returns the \<^verbatim>\<open>float\<close> nearest to the literal, or throws
  \<^verbatim>\<open>std::out_of_range\<close> when the library reports a range error.  Which literals are out
  of range, and how the others round, is the library's business; the parser takes the
  conversion as a parameter \<open>stof\<close> and everything proved below holds for every such
  conversion.
\<close>

type_synonym stof_fun = "string \<Rightarrow> exception + real"

text \<open>
  An exception that passes through a method of the parser ends the parse (\<^verbatim>\<open>main\<close>
  catches it and exits), so the parser's results keep the exception alone.
\<close>

definition Parser_advance :: "Parser \<Rightarrow> exception + Parser" where
  "Parser_advance ps =
     (case nextToken (lexer ps) of
        Inl (e, lx) \<Rightarrow> Inl e
      | Inr (tok, lx) \<Rightarrow> Inr (ps\<lparr>lexer := lx, current := tok\<rparr>))"

text \<open>The constructor \<^verbatim>\<open>Parser(Lexer &lex) : lexer(lex) { advance(); }\<close>\<close>

definition Parser_ctor :: "Lexer \<Rightarrow> exception + Parser" where
  "Parser_ctor lx =
     (case nextToken lx of
        Inl (e, lx1) \<Rightarrow> Inl e
      | Inr (tok, lx1) \<Rightarrow> Inr \<lparr>lexer = lx1, current = tok\<rparr>)"

definition check :: "Parser \<Rightarrow> TokenType \<Rightarrow> bool" where
  "check ps t = (tok_type (current ps) = t)"

definition Parser_match :: "Parser \<Rightarrow> TokenType \<Rightarrow> exception + (bool \<times> Parser)" where
  "Parser_match ps t =
     (if check ps t
      then (case Parser_advance ps of Inl e \<Rightarrow> Inl e | Inr ps1 \<Rightarrow> Inr (True, ps1))
      else Inr (False, ps))"

definition expect :: "Parser \<Rightarrow> TokenType \<Rightarrow> string \<Rightarrow> exception + Parser" where
  "expect ps t msg =
     (case Parser_match ps t of
        Inl e \<Rightarrow> Inl e
      | Inr (m, ps1) \<Rightarrow> if \<not> m then Inl (runtime_error (''Expected '' @ msg)) else Inr ps1)"

subsection \<open>Recursive descent with fuel\<close>

text \<open>
  The parsing methods call one another recursively, as deep as the text nests, and
  their loops run as long as the lexer delivers tokens.  Each becomes a function with a
  fuel argument that every call and every loop iteration decrements, a bound on the depth
  of the call stack; \<open>None\<close> means the fuel ran out, \<open>Some (Inl e)\<close> that \<open>e\<close> was thrown,
  \<open>Some (Inr (x, ps))\<close> that \<open>x\<close> was returned with the parser left in state \<open>ps\<close>.
\<close>

type_synonym 'a parse = "(exception + 'a \<times> Parser) option"

text \<open>Sequencing: after a step without fuel, and after a parsing call.\<close>

definition bindE :: "exception + 'a \<Rightarrow> ('a \<Rightarrow> 'b parse) \<Rightarrow> 'b parse" where
  "bindE r k = (case r of Inl e \<Rightarrow> Some (Inl e) | Inr x \<Rightarrow> k x)"

definition bindP :: "'a parse \<Rightarrow> ('a \<Rightarrow> Parser \<Rightarrow> 'b parse) \<Rightarrow> 'b parse" where
  "bindP r k =
     (case r of None \<Rightarrow> None | Some (Inl e) \<Rightarrow> Some (Inl e) | Some (Inr (x, ps)) \<Rightarrow> k x ps)"

text \<open>
  A loop of the source is the function \<open>f_loop\<close> next to \<open>f\<close>, with the loop's variables
  as arguments.  Every function hands the conversion \<open>stof\<close> on to the ones it calls;
  \<open>parsePrimary\<close> applies it to the lexeme of a Float token, after the \<^verbatim>\<open>advance()\<close>.  \<open>parseStatement_stmt\<close> is the first half of \<^verbatim>\<open>parseStatement\<close>, the
  choice of the statement kind; \<open>parseStatement\<close> adds the terminator rule.  In
  \<^verbatim>\<open>parseTerm\<close> and \<^verbatim>\<open>parseFactor\<close> the operator text is read from \<^verbatim>\<open>current.lexeme\<close>
  after \<^verbatim>\<open>match\<close> has advanced.
\<close>


function parseBlock :: "nat \<Rightarrow> stof_fun \<Rightarrow> Parser \<Rightarrow> (ASTNode list) parse"
  and parseBlock_loop :: "nat \<Rightarrow> stof_fun \<Rightarrow> ASTNode list \<Rightarrow> Parser \<Rightarrow> (ASTNode list) parse"
  and parseStatement :: "nat \<Rightarrow> stof_fun \<Rightarrow> Parser \<Rightarrow> ASTNode parse"
  and parseStatement_stmt :: "nat \<Rightarrow> stof_fun \<Rightarrow> Parser \<Rightarrow> ASTNode parse"
  and parseLetDecl :: "nat \<Rightarrow> stof_fun \<Rightarrow> Parser \<Rightarrow> ASTNode parse"
  and parseIfStmt :: "nat \<Rightarrow> stof_fun \<Rightarrow> Parser \<Rightarrow> ASTNode parse"
  and parseReturnStmt :: "nat \<Rightarrow> stof_fun \<Rightarrow> Parser \<Rightarrow> ASTNode parse"
  and parseExpression :: "nat \<Rightarrow> stof_fun \<Rightarrow> Parser \<Rightarrow> ASTNode parse"
  and parseEquality :: "nat \<Rightarrow> stof_fun \<Rightarrow> Parser \<Rightarrow> ASTNode parse"
  and parseEquality_loop :: "nat \<Rightarrow> stof_fun \<Rightarrow> ASTNode \<Rightarrow> Parser \<Rightarrow> ASTNode parse"
  and parseComparison :: "nat \<Rightarrow> stof_fun \<Rightarrow> Parser \<Rightarrow> ASTNode parse"
  and parseComparison_loop :: "nat \<Rightarrow> stof_fun \<Rightarrow> ASTNode \<Rightarrow> Parser \<Rightarrow> ASTNode parse"
  and parseTerm :: "nat \<Rightarrow> stof_fun \<Rightarrow> Parser \<Rightarrow> ASTNode parse"
  and parseTerm_loop :: "nat \<Rightarrow> stof_fun \<Rightarrow> ASTNode \<Rightarrow> Parser \<Rightarrow> ASTNode parse"
  and parseFactor :: "nat \<Rightarrow> stof_fun \<Rightarrow> Parser \<Rightarrow> ASTNode parse"
  and parseFactor_loop :: "nat \<Rightarrow> stof_fun \<Rightarrow> ASTNode \<Rightarrow> Parser \<Rightarrow> ASTNode parse"
  and parsePrimary :: "nat \<Rightarrow> stof_fun \<Rightarrow> Parser \<Rightarrow> ASTNode parse"
  and parseCallOrVar :: "nat \<Rightarrow> stof_fun \<Rightarrow> Parser \<Rightarrow> ASTNode parse"
  and parseCallOrVar_loop :: "nat \<Rightarrow> stof_fun \<Rightarrow> ASTNode list \<Rightarrow> Parser \<Rightarrow> (ASTNode list) parse"
where
  "parseBlock 0 stof ps = None"
| "parseBlock (Suc n) stof ps =
     bindE (expect ps T_LBrace ''`{`'') (\<lambda>ps1.
     bindP (parseBlock_loop n stof [] ps1) (\<lambda>stmts ps2.
     bindE (expect ps2 T_RBrace ''`}`'') (\<lambda>ps3.
     Some (Inr (stmts, ps3)))))"

| "parseBlock_loop 0 stof stmts ps = None"
| "parseBlock_loop (Suc n) stof stmts ps =
     (if \<not> check ps T_RBrace \<and> \<not> check ps T_Eof
      then bindP (parseStatement n stof ps) (\<lambda>stmt ps1. parseBlock_loop n stof (stmts @ [stmt]) ps1)
      else Some (Inr (stmts, ps)))"

| "parseStatement 0 stof ps = None"
| "parseStatement (Suc n) stof ps =
     bindP (parseStatement_stmt n stof ps) (\<lambda>stmt ps1.
     if \<not> check ps1 T_RBrace
     then bindE (expect ps1 T_Semi ''`;` after statement'') (\<lambda>ps2. Some (Inr (stmt, ps2)))
     else Some (Inr (stmt, ps1)))"

| "parseStatement_stmt 0 stof ps = None"
| "parseStatement_stmt (Suc n) stof ps =
     bindE (Parser_match ps T_Let) (\<lambda>(m, ps1).
     if m then parseLetDecl n stof ps1
     else bindE (Parser_match ps1 T_If) (\<lambda>(m, ps2).
     if m then parseIfStmt n stof ps2
     else bindE (Parser_match ps2 T_Return) (\<lambda>(m, ps3).
     if m then parseReturnStmt n stof ps3
     else parseExpression n stof ps3)))"

| "parseLetDecl 0 stof ps = None"
| "parseLetDecl (Suc n) stof ps =
     (if \<not> check ps T_Identifier then Some (Inl (runtime_error ''Expected variable name''))
      else let name = lexeme (current ps) in
        bindE (Parser_advance ps) (\<lambda>ps1.
        bindE (expect ps1 T_Colon ''`:`'') (\<lambda>ps2.
        if \<not> isTypeToken (tok_type (current ps2))
        then Some (Inl (runtime_error ''Expected type name''))
        else bindE (stringToVarType (lexeme (current ps2))) (\<lambda>type.
        bindE (Parser_advance ps2) (\<lambda>ps3.
        bindE (Parser_match ps3 T_Eq) (\<lambda>(m, ps4).
        if m
        then bindP (parseExpression n stof ps4) (\<lambda>init ps5.
             Some (Inr (LetDecl name type (Some init), ps5)))
        else Some (Inr (LetDecl name type None, ps4))))))))"

| "parseIfStmt 0 stof ps = None"
| "parseIfStmt (Suc n) stof ps =
     bindP (parseExpression n stof ps) (\<lambda>cond ps1.
     bindP (parseBlock n stof ps1) (\<lambda>thenBranch ps2.
     bindE (Parser_match ps2 T_Else) (\<lambda>(m, ps3).
     if m
     then bindP (parseBlock n stof ps3) (\<lambda>elseBranch ps4.
          Some (Inr (IfStmt cond thenBranch elseBranch, ps4)))
     else Some (Inr (IfStmt cond thenBranch [], ps3)))))"

| "parseReturnStmt 0 stof ps = None"
| "parseReturnStmt (Suc n) stof ps =
     bindP (parseExpression n stof ps) (\<lambda>val ps1. Some (Inr (ReturnStmt val, ps1)))"

| "parseExpression 0 stof ps = None"
| "parseExpression (Suc n) stof ps = parseEquality n stof ps"

| "parseEquality 0 stof ps = None"
| "parseEquality (Suc n) stof ps =
     bindP (parseComparison n stof ps) (\<lambda>expr ps1. parseEquality_loop n stof expr ps1)"

| "parseEquality_loop 0 stof expr ps = None"
| "parseEquality_loop (Suc n) stof expr ps =
     bindE (Parser_match ps T_Eq) (\<lambda>(m, ps1).
     if m
     then bindP (parseComparison n stof ps1) (\<lambda>right ps2.
          parseEquality_loop n stof (BinaryExpr ''='' expr right) ps2)
     else Some (Inr (expr, ps1)))"

| "parseComparison 0 stof ps = None"
| "parseComparison (Suc n) stof ps =
     bindP (parseTerm n stof ps) (\<lambda>expr ps1. parseComparison_loop n stof expr ps1)"

| "parseComparison_loop 0 stof expr ps = None"
| "parseComparison_loop (Suc n) stof expr ps =
     bindE (Parser_match ps T_Leq) (\<lambda>(m, ps1).
     if m
     then bindP (parseTerm n stof ps1) (\<lambda>right ps2.
          parseComparison_loop n stof (BinaryExpr ''<='' expr right) ps2)
     else Some (Inr (expr, ps1)))"

| "parseTerm 0 stof ps = None"
| "parseTerm (Suc n) stof ps =
     bindP (parseFactor n stof ps) (\<lambda>expr ps1. parseTerm_loop n stof expr ps1)"

| "parseTerm_loop 0 stof expr ps = None"
| "parseTerm_loop (Suc n) stof expr ps =
     bindE (Parser_match ps T_Plus) (\<lambda>(m1, ps1).
     bindE (if m1 then Inr (True, ps1) else Parser_match ps1 T_Minus) (\<lambda>(m, ps2).
     if m
     then let op = lexeme (current ps2) in
          bindP (parseFactor n stof ps2) (\<lambda>right ps3.
          parseTerm_loop n stof (BinaryExpr op expr right) ps3)
     else Some (Inr (expr, ps2))))"

| "parseFactor 0 stof ps = None"
| "parseFactor (Suc n) stof ps =
     bindP (parsePrimary n stof ps) (\<lambda>expr ps1. parseFactor_loop n stof expr ps1)"

| "parseFactor_loop 0 stof expr ps = None"
| "parseFactor_loop (Suc n) stof expr ps =
     bindE (Parser_match ps T_Star) (\<lambda>(m1, ps1).
     bindE (if m1 then Inr (True, ps1) else Parser_match ps1 T_Slash) (\<lambda>(m, ps2).
     if m
     then let op = lexeme (current ps2) in
          bindP (parsePrimary n stof ps2) (\<lambda>right ps3.
          parseFactor_loop n stof (BinaryExpr op expr right) ps3)
     else Some (Inr (expr, ps2))))"

| "parsePrimary 0 stof ps = None"
| "parsePrimary (Suc n) stof ps =
     (if check ps T_Integer then
        let numText = lexeme (current ps) in
        bindE (Parser_advance ps) (\<lambda>ps1.
        bindE (stoll numText) (\<lambda>v. Some (Inr (IntExpr v, ps1))))
      else if check ps T_Float then
        let numText = lexeme (current ps) in
        bindE (Parser_advance ps) (\<lambda>ps1.
        bindE (stof numText) (\<lambda>v. Some (Inr (DoubleExpr v, ps1))))
      else if check ps T_String then
        let strText = lexeme (current ps) in
        bindE (Parser_advance ps) (\<lambda>ps1. Some (Inr (StringExpr strText, ps1)))
      else if check ps T_Char then
        let charText = lexeme (current ps) in
        bindE (Parser_advance ps) (\<lambda>ps1.
        case charText of
          [] \<Rightarrow> Some (Inl (runtime_error ''Empty char literal''))
        | c # _ \<Rightarrow> Some (Inr (CharExpr c, ps1)))
      else if check ps T_Bool then
        let val = (lexeme (current ps) = ''true'') in
        bindE (Parser_advance ps) (\<lambda>ps1. Some (Inr (BoolExpr val, ps1)))
      else if check ps T_Identifier then parseCallOrVar n stof ps
      else bindE (Parser_match ps T_LParen) (\<lambda>(m, ps1).
        if m
        then bindP (parseExpression n stof ps1) (\<lambda>expr ps2.
             bindE (expect ps2 T_RParen ''`)`'') (\<lambda>ps3. Some (Inr (expr, ps3))))
        else if check ps1 T_VoidType
        then bindE (Parser_advance ps1) (\<lambda>ps2. Some (Inr (VoidExpr, ps2)))
        else Some (Inl (runtime_error ''Unexpected token in expression''))))"

| "parseCallOrVar 0 stof ps = None"
| "parseCallOrVar (Suc n) stof ps =
     (let name = lexeme (current ps) in
      bindE (Parser_advance ps) (\<lambda>ps1.
      bindE (Parser_match ps1 T_LParen) (\<lambda>(m, ps2).
      if m
      then bindP (if \<not> check ps2 T_RParen then parseCallOrVar_loop n stof [] ps2
                  else Some (Inr ([], ps2))) (\<lambda>args ps3.
           bindE (expect ps3 T_RParen ''`)`'') (\<lambda>ps4.
           Some (Inr (CallExpr name args, ps4))))
      else Some (Inr (VarExpr name, ps2)))))"

| "parseCallOrVar_loop 0 stof args ps = None"
| "parseCallOrVar_loop (Suc n) stof args ps =
     bindP (parseExpression n stof ps) (\<lambda>arg ps1.
     bindE (Parser_match ps1 T_Comma) (\<lambda>(m, ps2).
     if m then parseCallOrVar_loop n stof (args @ [arg]) ps2
     else Some (Inr (args @ [arg], ps2))))"


  by pat_completeness auto
termination
  by (relation "measure
        (case_sum
          (case_sum
            (case_sum (case_sum fst fst) (case_sum fst fst))
            (case_sum (case_sum fst fst) (case_sum fst (case_sum fst fst))))
          (case_sum
            (case_sum (case_sum fst fst) (case_sum fst (case_sum fst fst)))
            (case_sum (case_sum fst fst) (case_sum fst (case_sum fst fst)))))")
     simp_all

text \<open>
  The \<^verbatim>\<open>do { ... } while (match(TokenType::Comma))\<close> of \<^verbatim>\<open>Parser::parseFunction\<close>.  The
  first pass needs no fuel, every further pass one unit.
\<close>

fun parseFunction_loop ::
  "nat \<Rightarrow> (string \<times> VarType) list \<Rightarrow> Parser \<Rightarrow> ((string \<times> VarType) list) parse" where
  "parseFunction_loop n params ps =
     (if \<not> check ps T_Identifier then Some (Inl (runtime_error ''Expected parameter name''))
      else let pname = lexeme (current ps) in
        bindE (Parser_advance ps) (\<lambda>ps1.
        bindE (expect ps1 T_Colon ''`:`'') (\<lambda>ps2.
        if \<not> isTypeToken (tok_type (current ps2))
        then Some (Inl (runtime_error ''Expected parameter type''))
        else bindE (stringToVarType (lexeme (current ps2))) (\<lambda>ptype.
        bindE (Parser_advance ps2) (\<lambda>ps3.
        bindE (Parser_match ps3 T_Comma) (\<lambda>(m, ps4).
        if m
        then (case n of
                0 \<Rightarrow> None
              | Suc k \<Rightarrow> parseFunction_loop k (params @ [(pname, ptype)]) ps4)
        else Some (Inr (params @ [(pname, ptype)], ps4))))))))"

declare parseFunction_loop.simps [simp del]

definition parseFunction :: "nat \<Rightarrow> stof_fun \<Rightarrow> Parser \<Rightarrow> ASTNode parse" where
  "parseFunction n stof ps =
     bindE (expect ps T_Fn ''`fn`'') (\<lambda>ps1.
     if \<not> check ps1 T_Identifier then Some (Inl (runtime_error ''Expected function name''))
     else let name = lexeme (current ps1) in
     bindE (Parser_advance ps1) (\<lambda>ps2.
     bindE (expect ps2 T_LParen ''`(`'') (\<lambda>ps3.
     bindP (if \<not> check ps3 T_RParen then parseFunction_loop n [] ps3
            else Some (Inr ([], ps3))) (\<lambda>params ps4.
     bindE (expect ps4 T_RParen ''`)`'') (\<lambda>ps5.
     bindE (expect ps5 T_Arrow ''`->`'') (\<lambda>ps6.
     if \<not> isTypeToken (tok_type (current ps6))
     then Some (Inl (runtime_error ''Expected return type''))
     else bindE (stringToVarType (lexeme (current ps6))) (\<lambda>returnType.
     bindE (Parser_advance ps6) (\<lambda>ps7.
     bindP (parseBlock n stof ps7) (\<lambda>stmts ps8.
     Some (Inr (Function name returnType params (BlockStmt stmts), ps8)))))))))))"

text \<open>
  The \<^verbatim>\<open>while (!check(TokenType::Eof))\<close> of \<^verbatim>\<open>Parser::parseProgram\<close>, with the
  functions collected so far; again the first pass needs no fuel.
\<close>

fun parseProgram_loop :: "nat \<Rightarrow> stof_fun \<Rightarrow> ASTNode list \<Rightarrow> Parser \<Rightarrow> ASTNode parse" where
  "parseProgram_loop n stof functions ps =
     (if \<not> check ps T_Eof
      then bindP (parseFunction n stof ps) (\<lambda>f ps1.
           case n of
             0 \<Rightarrow> None
           | Suc k \<Rightarrow> parseProgram_loop k stof (functions @ [f]) ps1)
      else Some (Inr (Program functions, ps)))"

declare parseProgram_loop.simps [simp del]

definition parseProgram :: "nat \<Rightarrow> stof_fun \<Rightarrow> Parser \<Rightarrow> ASTNode parse" where
  "parseProgram n stof ps = parseProgram_loop n stof [] ps"

text \<open>
  The \<^verbatim>\<open>try\<close> block of \<^verbatim>\<open>main\<close>: a lexer over the text, a parser over the lexer,
  \<^verbatim>\<open>parseProgram()\<close>; the result is the tree or the exception.
\<close>

definition outcome :: "'a parse \<Rightarrow> (exception + 'a) option" where
  "outcome r = (case r of None \<Rightarrow> None | Some (Inl e) \<Rightarrow> Some (Inl e)
                | Some (Inr (x, ps)) \<Rightarrow> Some (Inr x))"

definition parseSource :: "nat \<Rightarrow> stof_fun \<Rightarrow> string \<Rightarrow> (exception + ASTNode) option" where
  "parseSource n stof src = outcome (bindE (Parser_ctor (Lexer_ctor src)) (parseProgram n stof))"

text \<open>
  The private methods \<^verbatim>\<open>parseExpression\<close> and \<^verbatim>\<open>parseBlock\<close> on a fresh parser over a
  text.
\<close>

definition parseExpression_of :: "nat \<Rightarrow> stof_fun \<Rightarrow> string \<Rightarrow> (exception + ASTNode) option" where
  "parseExpression_of n stof src = outcome (bindE (Parser_ctor (Lexer_ctor src)) (parseExpression n stof))"

definition parseBlock_of :: "nat \<Rightarrow> stof_fun \<Rightarrow> string \<Rightarrow> (exception + ASTNode list) option" where
  "parseBlock_of n stof src = outcome (bindE (Parser_ctor (Lexer_ctor src)) (parseBlock n stof))"

section \<open>The lexer never changes its buffer\<close>

lemma skipWhitespaceAndComments_source:
  "skipWhitespaceAndComments lx = Inr lx' \<Longrightarrow> source lx' = source lx"
proof (induction lx rule: skipWhitespaceAndComments.induct)
  case (1 lx)
  let ?c = "peek lx 0"
  consider (space) "isspace ?c"
    | (line) "\<not> isspace ?c" "?c = CHR ''/'' \<and> peek lx 1 = CHR ''/''"
    | (block) "\<not> isspace ?c" "\<not> (?c = CHR ''/'' \<and> peek lx 1 = CHR ''/'')"
        "?c = CHR ''/'' \<and> peek lx 1 = CHR ''*''"
    | (stop) "\<not> isspace ?c" "\<not> (?c = CHR ''/'' \<and> peek lx 1 = CHR ''/'')"
        "\<not> (?c = CHR ''/'' \<and> peek lx 1 = CHR ''*'')"
    by blast
  then show ?case
  proof cases
    case space
    with "1.prems" have "skipWhitespaceAndComments (snd (Lexer_advance lx)) = Inr lx'"
      by (subst (asm) skipWhitespaceAndComments.simps) (simp add: Let_def del: One_nat_def)
    from "1.IH"(1) [OF refl space this] show ?thesis by simp
  next
    case line
    with "1.prems" have "skipWhitespaceAndComments (lineComment_loop lx) = Inr lx'"
      by (subst (asm) skipWhitespaceAndComments.simps) (simp add: Let_def del: One_nat_def)
    from "1.IH"(2) [OF refl line this] show ?thesis by simp
  next
    case block
    let ?a = "snd (Lexer_advance (snd (Lexer_advance lx)))"
    from block "1.prems" obtain lx1 where bc: "blockComment_loop ?a = Inr lx1"
      and rec: "skipWhitespaceAndComments (snd (Lexer_advance (snd (Lexer_advance lx1)))) = Inr lx'"
      by (subst (asm) skipWhitespaceAndComments.simps) (auto simp: Let_def split: sum.splits simp del: One_nat_def)
    from "1.IH"(3) [OF refl block bc rec] blockComment_loop_source [OF bc]
    show ?thesis by simp
  next
    case stop
    with "1.prems" show ?thesis
      by (subst (asm) skipWhitespaceAndComments.simps) (simp add: Let_def del: One_nat_def)
  qed
qed

lemma identifier_loop_source [simp]: "source (identifier_loop lx) = source lx"
  by (induction lx rule: identifier_loop.induct)
     (subst identifier_loop.simps, simp)

lemma digits_loop_source [simp]: "source (digits_loop lx) = source lx"
  by (induction lx rule: digits_loop.induct)
     (subst digits_loop.simps, simp)

lemma Lexer_advance_source_eq: "Lexer_advance lx = (c, lx') \<Longrightarrow> source lx' = source lx"
  using Lexer_advance_source [of lx] by simp

lemma string_loop_source:
  "string_loop lx v = Inr (s, lx') \<Longrightarrow> source lx' = source lx"
proof (induction "length (source lx) - pos lx" arbitrary: lx v rule: less_induct)
  case less
  obtain c lx1 where a1: "Lexer_advance lx = (c, lx1)" by (cases "Lexer_advance lx")
  obtain e lx2 where a2: "Lexer_advance lx1 = (e, lx2)" by (cases "Lexer_advance lx1")
  from less.prems have alt:
    "lx' = lx1
     \<or> (c \<noteq> CHR 0x00 \<and> (\<exists>w. string_loop lx1 w = Inr (s, lx')))
     \<or> (c \<noteq> CHR 0x00 \<and> e \<noteq> CHR 0x00 \<and> (\<exists>w. string_loop lx2 w = Inr (s, lx')))"
    by (subst (asm) string_loop.simps) (auto simp: a1 a2 split: if_splits)
  have s1: "source lx1 = source lx" by (rule Lexer_advance_source_eq [OF a1])
  have s2: "source lx2 = source lx" using Lexer_advance_source_eq [OF a2] s1 by simp
  have m1: "c \<noteq> CHR 0x00 \<Longrightarrow> length (source lx1) - pos lx1 < length (source lx) - pos lx"
    using Lexer_advance_char [OF a1 [symmetric]] by auto
  have m2: "c \<noteq> CHR 0x00 \<Longrightarrow> e \<noteq> CHR 0x00 \<Longrightarrow>
            length (source lx2) - pos lx2 < length (source lx) - pos lx"
    using Lexer_advance_char [OF a1 [symmetric]] Lexer_advance_char [OF a2 [symmetric]] by auto
  from alt show ?case
  proof (elim disjE conjE exE)
    assume "lx' = lx1"
    then show ?thesis using s1 by simp
  next
    fix w assume "c \<noteq> CHR 0x00" and r: "string_loop lx1 w = Inr (s, lx')"
    from less.hyps [OF m1 r] \<open>c \<noteq> CHR 0x00\<close> s1 show ?thesis by simp
  next
    fix w assume "c \<noteq> CHR 0x00" "e \<noteq> CHR 0x00" and r: "string_loop lx2 w = Inr (s, lx')"
    from less.hyps [OF m2 r] \<open>c \<noteq> CHR 0x00\<close> \<open>e \<noteq> CHR 0x00\<close> s2 show ?thesis by simp
  qed
qed

lemma Lexer_match_source [simp]: "source (snd (Lexer_match lx c)) = source lx"
  by (simp add: Lexer_match_def)

lemma Lexer_match_source_eq: "Lexer_match lx c = (b, lx') \<Longrightarrow> source lx' = source lx"
  using Lexer_match_source [of lx c] by simp

lemma identifierOrKeyword_source [simp]: "source (snd (identifierOrKeyword lx)) = source lx"
  by (simp add: identifierOrKeyword_def Let_def split: option.splits)

lemma number_source [simp]: "source (snd (number lx)) = source lx"
  by (simp add: number_def Let_def split: prod.splits)

lemma string_lit_source: "string_lit lx = Inr (tok, lx') \<Longrightarrow> source lx' = source lx"
  by (auto simp: string_lit_def Let_def split: sum.splits dest: string_loop_source)

lemma identifierOrKeyword_kind:
  "tok_type (fst (identifierOrKeyword lx)) \<in> {T_Fn, T_Let, T_If, T_Else, T_Return, T_Identifier}"
  by (auto simp: identifierOrKeyword_def Let_def keywords_table_def
           split: option.splits if_splits)

lemma number_kind: "tok_type (fst (number lx)) \<in> {T_Integer, T_Float}"
  by (simp add: number_def Let_def split: prod.splits)

lemma string_lit_kind: "string_lit lx = Inr (tok, lx') \<Longrightarrow> tok_type tok = T_String"
  by (auto simp: string_lit_def Let_def split: sum.splits)

text \<open>
  A property of whatever \<open>nextToken\<close> returns: \<open>returns P r\<close> holds when \<open>r\<close> is an
  exception, or a token and lexer that satisfy \<open>P\<close>.
\<close>

definition returns ::
  "(Token \<times> Lexer \<Rightarrow> bool) \<Rightarrow> (exception \<times> Lexer) + (Token \<times> Lexer) \<Rightarrow> bool" where
  "returns P r = (case r of Inl e \<Rightarrow> True | Inr p \<Rightarrow> P p)"

lemma returns_simps [simp]:
  "returns P (Inl e)" "returns P (Inr p) = P p" "returns P (Lexer_throw lx msg)"
  by (simp_all add: returns_def Lexer_throw_def)

lemma returns_string_lit:
  "returns (\<lambda>p. source (snd p) = source lx \<and> \<not> isTypeToken (tok_type (fst p))) (string_lit lx)"
  by (cases "string_lit lx") (auto dest: string_lit_source string_lit_kind)

lemma identifierOrKeyword_no_type: "\<not> isTypeToken (tok_type (fst (identifierOrKeyword lx)))"
  using identifierOrKeyword_kind [of lx] by auto

lemma number_no_type: "\<not> isTypeToken (tok_type (fst (number lx)))"
  using number_kind [of lx] by auto

lemma nextToken_returns:
  "returns (\<lambda>p. source (snd p) = source lx \<and> \<not> isTypeToken (tok_type (fst p))) (nextToken lx)"
proof (cases "skipWhitespaceAndComments lx")
  case (Inl e)
  then show ?thesis by (simp add: nextToken_def)
next
  case (Inr lx0)
  then have s0: "source lx0 = source lx" by (rule skipWhitespaceAndComments_source)
  obtain c lx1 where adv: "Lexer_advance lx0 = (c, lx1)" by (cases "Lexer_advance lx0")
  have s1: "source lx1 = source lx" using Lexer_advance_source_eq [OF adv] s0 by simp
  have st: "returns (\<lambda>p. source (snd p) = source lx \<and> \<not> isTypeToken (tok_type (fst p)))
              (string_lit lx1)"
    using returns_string_lit [of lx1] s1 by simp
  show ?thesis
    unfolding nextToken_def Inr sum.case adv prod.case Let_def Lexer_match_def
    by (simp add: s0 s1 st identifierOrKeyword_no_type number_no_type)
qed

lemma nextToken_source: "nextToken lx = Inr (tok, lx') \<Longrightarrow> source lx' = source lx"
  using nextToken_returns [of lx] by simp

lemma nextToken_no_type: "nextToken lx = Inr (tok, lx') \<Longrightarrow> \<not> isTypeToken (tok_type tok)"
  using nextToken_returns [of lx] by simp

section \<open>No function ever parses\<close>

lemma Parser_advance_no_type:
  "Parser_advance ps = Inr ps' \<Longrightarrow> \<not> isTypeToken (tok_type (current ps'))"
  by (auto simp: Parser_advance_def split: sum.splits prod.splits dest: nextToken_no_type)

lemma expect_no_type:
  "expect ps t msg = Inr ps' \<Longrightarrow> \<not> isTypeToken (tok_type (current ps'))"
  by (auto simp: expect_def Parser_match_def split: sum.splits if_splits
           dest: Parser_advance_no_type)

lemma bindE_fails:
  "(\<And>x. r = Inr x \<Longrightarrow> \<exists>e. k x = Some (Inl e)) \<Longrightarrow> \<exists>e. bindE r k = Some (Inl e)"
  by (cases r) (auto simp: bindE_def)

lemma bindP_fails:
  "r \<noteq> None \<Longrightarrow> (\<And>x ps. r = Some (Inr (x, ps)) \<Longrightarrow> \<exists>e. k x ps = Some (Inl e))
   \<Longrightarrow> \<exists>e. bindP r k = Some (Inl e)"
  by (cases r) (auto simp: bindP_def split: sum.splits)

lemma parseFunction_loop_fails: "\<exists>e. parseFunction_loop n params ps = Some (Inl e)"
proof (cases "check ps T_Identifier")
  case False
  then show ?thesis by (subst parseFunction_loop.simps) simp
next
  case True
  show ?thesis
    apply (subst parseFunction_loop.simps)
    apply (simp add: True Let_def)
    apply (rule bindE_fails)
    apply (rule bindE_fails)
    apply (simp add: expect_no_type)
    done
qed

lemma parseFunction_fails: "\<exists>e. parseFunction n stof ps = Some (Inl e)"
  unfolding parseFunction_def
  apply (rule bindE_fails)
  apply (simp add: Let_def)
  apply (rule impI)
  apply (rule bindE_fails)
  apply (rule bindE_fails)
  apply (rule bindP_fails)
   apply (simp add: parseFunction_loop_fails split: if_splits)
   apply (metis parseFunction_loop_fails)
  apply (rule bindE_fails)
  apply (rule bindE_fails)
  apply (simp add: expect_no_type)
  done

lemma parseProgram_at_Eof:
  "check ps T_Eof \<Longrightarrow> parseProgram n stof ps = Some (Inr (Program [], ps))"
  by (simp add: parseProgram_def parseProgram_loop.simps)

lemma parseProgram_not_Eof:
  "\<not> check ps T_Eof \<Longrightarrow> \<exists>e. parseProgram n stof ps = Some (Inl e)"
  using parseFunction_fails [of n stof ps]
  by (auto simp: parseProgram_def parseProgram_loop.simps [of n stof "[]" ps] bindP_def)

lemma parseSource_cases:
  "parseSource n stof src =
     (case nextToken (Lexer_ctor src) of
        Inl (e, lx) \<Rightarrow> Some (Inl e)
      | Inr (tok, lx) \<Rightarrow>
          if tok_type tok = T_Eof then Some (Inr (Program []))
          else outcome (parseProgram n stof \<lparr>lexer = lx, current = tok\<rparr>))"
  by (auto simp: parseSource_def Parser_ctor_def bindE_def outcome_def parseProgram_at_Eof
                 check_def split: sum.splits prod.splits)

section \<open>Properties\<close>

text \<open>
  C1.  The specification expects \<^verbatim>\<open>fn id(x: Int) -> Int { return x; }\<close> to parse to a
  program with the one function \<open>id\<close>.  The parser rejects it, whatever the fuel and
  the conversion \<open>stof\<close>: the
  lexer delivers \<open>Int\<close> as an Identifier token, and \<open>isTypeToken\<close> refuses it as the type
  of the parameter.
\<close>

theorem parseSource_id_rejected:
  "parseSource n stof ''fn id(x: Int) -> Int { return x; }''
     = Some (Inl (runtime_error ''Expected parameter type''))"
  by code_simp

lemma parseExpression_sum_product:
  "parseExpression_of (Suc (Suc (Suc (Suc (Suc (Suc (Suc (Suc n)))))))) stof ''1 + 2 * 3''
     = Some (Inr (BinaryExpr ''2'' (IntExpr 1) (BinaryExpr ''3'' (IntExpr 2) (IntExpr 3))))"
  by code_simp

text \<open>
  C3.  The specification expects \<^verbatim>\<open>1 + 2 * 3\<close> to parse to
  \<open>BinaryExpr ''+'' (IntExpr 1) (BinaryExpr ''*'' (IntExpr 2) (IntExpr 3))\<close>.  The shape
  is that one, multiplication below addition, but with fuel 8 or more the operator texts
  are \<open>''2''\<close> and \<open>''3''\<close>: \<^verbatim>\<open>parseTerm\<close> and \<^verbatim>\<open>parseFactor\<close> read
  \<^verbatim>\<open>current.lexeme\<close> after \<^verbatim>\<open>match\<close> has moved to the token behind the operator.
\<close>

theorem parseExpression_precedence_operator_text:
  "parseExpression_of (n + 8) stof ''1 + 2 * 3''
     = Some (Inr (BinaryExpr ''2'' (IntExpr 1) (BinaryExpr ''3'' (IntExpr 2) (IntExpr 3))))"
proof -
  have "n + 8 = Suc (Suc (Suc (Suc (Suc (Suc (Suc (Suc n)))))))" by simp
  then show ?thesis by (simp only: parseExpression_sum_product)
qed

lemma parseExpression_difference:
  "parseExpression_of (Suc (Suc (Suc (Suc (Suc (Suc (Suc (Suc n)))))))) stof ''1 - 2 - 3''
     = Some (Inr (BinaryExpr ''3'' (BinaryExpr ''2'' (IntExpr 1) (IntExpr 2)) (IntExpr 3)))"
  by code_simp

text \<open>
  C4.  The specification expects \<^verbatim>\<open>1 - 2 - 3\<close> to parse to
  \<open>BinaryExpr ''-'' (BinaryExpr ''-'' (IntExpr 1) (IntExpr 2)) (IntExpr 3)\<close>.  The tree
  nests to the left, but the operator texts are \<open>''2''\<close> and \<open>''3''\<close>, for the same
  reason as in C3.
\<close>

theorem parseExpression_left_assoc_operator_text:
  "parseExpression_of (n + 8) stof ''1 - 2 - 3''
     = Some (Inr (BinaryExpr ''3'' (BinaryExpr ''2'' (IntExpr 1) (IntExpr 2)) (IntExpr 3)))"
proof -
  have "n + 8 = Suc (Suc (Suc (Suc (Suc (Suc (Suc (Suc n)))))))" by simp
  then show ?thesis by (simp only: parseExpression_difference)
qed

text \<open>
  C2.  Whatever the text and the fuel, parsing a program ends in an exception or in the
  program without functions; it returns exactly when the first token is the end of
  input; and no token that the lexer returns is a type token.
\<close>

theorem parseSource_never_a_function:
  "((\<exists>e. parseSource n stof src = Some (Inl e)) \<or> parseSource n stof src = Some (Inr (Program [])))
   \<and> ((\<exists>p. parseSource n stof src = Some (Inr p))
        \<longleftrightarrow> (\<exists>tok lx. nextToken (Lexer_ctor src) = Inr (tok, lx) \<and> tok_type tok = T_Eof))
   \<and> (\<forall>lx tok lx'. nextToken lx = Inr (tok, lx') \<longrightarrow> \<not> isTypeToken (tok_type tok))"
proof (intro conjI allI impI)
  show "(\<exists>e. parseSource n stof src = Some (Inl e)) \<or> parseSource n stof src = Some (Inr (Program []))"
  proof (cases "nextToken (Lexer_ctor src)")
    case (Inl e)
    then show ?thesis by (simp add: parseSource_cases split: prod.splits)
  next
    case (Inr p)
    obtain tok lx where p: "p = (tok, lx)" by (cases p)
    show ?thesis
    proof (cases "tok_type tok = T_Eof")
      case True
      with Inr p show ?thesis by (simp add: parseSource_cases)
    next
      case False
      then have "\<not> check \<lparr>lexer = lx, current = tok\<rparr> T_Eof" by (simp add: check_def)
      from parseProgram_not_Eof [OF this, of n stof] Inr p False show ?thesis
        by (auto simp: parseSource_cases outcome_def)
    qed
  qed
next
  show "(\<exists>p. parseSource n stof src = Some (Inr p))
        \<longleftrightarrow> (\<exists>tok lx. nextToken (Lexer_ctor src) = Inr (tok, lx) \<and> tok_type tok = T_Eof)"
  proof (cases "nextToken (Lexer_ctor src)")
    case (Inl e)
    then show ?thesis by (simp add: parseSource_cases split: prod.splits)
  next
    case (Inr p)
    obtain tok lx where p: "p = (tok, lx)" by (cases p)
    show ?thesis
    proof (cases "tok_type tok = T_Eof")
      case True
      with Inr p show ?thesis by (simp add: parseSource_cases)
    next
      case False
      then have "\<not> check \<lparr>lexer = lx, current = tok\<rparr> T_Eof" by (simp add: check_def)
      from parseProgram_not_Eof [OF this, of n stof] Inr p False show ?thesis
        by (auto simp: parseSource_cases outcome_def)
    qed
  qed
next
  fix lx tok lx'
  assume "nextToken lx = Inr (tok, lx')"
  then show "\<not> isTypeToken (tok_type tok)" by (rule nextToken_no_type)
qed

theorem parseSource_never_a_function_witness:
  "\<forall>stof.
     parseSource 0 stof '' /* no function */ '' = Some (Inr (Program []))
   \<and> (\<exists>tok lx. nextToken (Lexer_ctor '' /* no function */ '') = Inr (tok, lx)
                \<and> tok_type tok = T_Eof)
   \<and> parseSource 0 stof ''fn f() -> Int { }'' = Some (Inl (runtime_error ''Expected return type''))
   \<and> \<not> (\<exists>tok lx. nextToken (Lexer_ctor ''fn f() -> Int { }'') = Inr (tok, lx)
                  \<and> tok_type tok = T_Eof)
   \<and> nextToken (Lexer_ctor ''Int'')
       = Inr (Token T_Identifier ''Int'' 1 2, \<lparr>source = ''Int'', pos = 3, line = 1, col = 5\<rparr>)"
  (is "\<forall>stof. ?W stof")
proof
  fix stof :: stof_fun
  have a: "parseSource 0 stof '' /* no function */ '' = Some (Inr (Program []))"
    by code_simp
  have b: "parseSource 0 stof ''fn f() -> Int { }'' = Some (Inl (runtime_error ''Expected return type''))"
    by code_simp
  from a parseSource_never_a_function [of 0 stof "'' /* no function */ ''"]
  have c: "\<exists>tok lx. nextToken (Lexer_ctor '' /* no function */ '') = Inr (tok, lx)
                \<and> tok_type tok = T_Eof"
    by blast
  from b parseSource_never_a_function [of 0 stof "''fn f() -> Int { }''"]
  have d: "\<not> (\<exists>tok lx. nextToken (Lexer_ctor ''fn f() -> Int { }'') = Inr (tok, lx)
                  \<and> tok_type tok = T_Eof)"
    by auto
  have e: "nextToken (Lexer_ctor ''Int'')
       = Inr (Token T_Identifier ''Int'' 1 2, \<lparr>source = ''Int'', pos = 3, line = 1, col = 5\<rparr>)"
    by code_simp
  from a b c d e show "?W stof" by blast
qed

text \<open>
  C5.  The terminator rule of \<^verbatim>\<open>parseStatement\<close>.  Once the statement proper is parsed,
  leaving the parser in state \<open>ps1\<close>: if the current token is \<open>}\<close> the statement is
  returned and nothing is consumed; otherwise if it is \<open>;\<close> that token is consumed;
  otherwise \<^verbatim>\<open>std::runtime_error("Expected `;` after statement")\<close> is thrown.  An
  exception of the statement proper is passed on.
\<close>

theorem parseStatement_terminator:
  "parseStatement (Suc n) stof ps =
     (case parseStatement_stmt n stof ps of
        None \<Rightarrow> None
      | Some (Inl e) \<Rightarrow> Some (Inl e)
      | Some (Inr (stmt, ps1)) \<Rightarrow>
          if check ps1 T_RBrace then Some (Inr (stmt, ps1))
          else if check ps1 T_Semi
            then (case Parser_advance ps1 of
                    Inl e \<Rightarrow> Some (Inl e)
                  | Inr ps2 \<Rightarrow> Some (Inr (stmt, ps2)))
          else Some (Inl (runtime_error ''Expected `;` after statement'')))"
  by (simp add: bindP_def bindE_def expect_def Parser_match_def
           split: option.splits sum.splits prod.splits)

theorem parseStatement_terminator_witness:
  "\<forall>stof.
   parseStatement (Suc 8) stof
       \<lparr>lexer = \<lparr>source = ''x }'', pos = 1, line = 1, col = 3\<rparr>,
          current = Token T_Identifier ''x'' 1 2\<rparr>
     = Some (Inr (VarExpr ''x'',
          \<lparr>lexer = \<lparr>source = ''x }'', pos = 3, line = 1, col = 5\<rparr>,
             current = Token T_RBrace ''}'' 1 4\<rparr>))
   \<and> parseStatement (Suc 8) stof
       \<lparr>lexer = \<lparr>source = ''x; y'', pos = 1, line = 1, col = 3\<rparr>,
          current = Token T_Identifier ''x'' 1 2\<rparr>
     = Some (Inr (VarExpr ''x'',
          \<lparr>lexer = \<lparr>source = ''x; y'', pos = 4, line = 1, col = 7\<rparr>,
             current = Token T_Identifier ''y'' 1 6\<rparr>))
   \<and> parseStatement (Suc 8) stof
       \<lparr>lexer = \<lparr>source = ''x y'', pos = 1, line = 1, col = 3\<rparr>,
          current = Token T_Identifier ''x'' 1 2\<rparr>
     = Some (Inl (runtime_error ''Expected `;` after statement''))
   \<and> parseBlock_of 13 stof ''{ y; return x }''
     = Some (Inr [VarExpr ''y'', ReturnStmt (VarExpr ''x'')])
   \<and> parseBlock_of 13 stof ''{ return x return y }''
     = Some (Inl (runtime_error ''Expected `;` after statement''))"
  (is "\<forall>stof. ?W stof")
proof
  fix stof :: stof_fun
  have a: "parseStatement_stmt 8 stof
       \<lparr>lexer = \<lparr>source = ''x }'', pos = 1, line = 1, col = 3\<rparr>,
          current = Token T_Identifier ''x'' 1 2\<rparr>
     = Some (Inr (VarExpr ''x'',
          \<lparr>lexer = \<lparr>source = ''x }'', pos = 3, line = 1, col = 5\<rparr>,
             current = Token T_RBrace ''}'' 1 4\<rparr>))"
    by code_simp
  have b: "parseStatement_stmt 8 stof
       \<lparr>lexer = \<lparr>source = ''x; y'', pos = 1, line = 1, col = 3\<rparr>,
          current = Token T_Identifier ''x'' 1 2\<rparr>
     = Some (Inr (VarExpr ''x'',
          \<lparr>lexer = \<lparr>source = ''x; y'', pos = 2, line = 1, col = 4\<rparr>,
             current = Token T_Semi '';'' 1 3\<rparr>))"
    by code_simp
  have b': "Parser_advance
          \<lparr>lexer = \<lparr>source = ''x; y'', pos = 2, line = 1, col = 4\<rparr>,
             current = Token T_Semi '';'' 1 3\<rparr>
     = Inr \<lparr>lexer = \<lparr>source = ''x; y'', pos = 4, line = 1, col = 7\<rparr>,
             current = Token T_Identifier ''y'' 1 6\<rparr>"
    by code_simp
  have c: "parseStatement_stmt 8 stof
       \<lparr>lexer = \<lparr>source = ''x y'', pos = 1, line = 1, col = 3\<rparr>,
          current = Token T_Identifier ''x'' 1 2\<rparr>
     = Some (Inr (VarExpr ''x'',
          \<lparr>lexer = \<lparr>source = ''x y'', pos = 3, line = 1, col = 6\<rparr>,
             current = Token T_Identifier ''y'' 1 5\<rparr>))"
    by code_simp
  let ?rb = "\<lparr>lexer = \<lparr>source = ''x }'', pos = 1, line = 1, col = 3\<rparr>,
          current = Token T_Identifier ''x'' 1 2\<rparr>"
  let ?semi = "\<lparr>lexer = \<lparr>source = ''x; y'', pos = 1, line = 1, col = 3\<rparr>,
          current = Token T_Identifier ''x'' 1 2\<rparr>"
  let ?other = "\<lparr>lexer = \<lparr>source = ''x y'', pos = 1, line = 1, col = 3\<rparr>,
          current = Token T_Identifier ''x'' 1 2\<rparr>"
  have d: "parseBlock_of 13 stof ''{ y; return x }''
     = Some (Inr [VarExpr ''y'', ReturnStmt (VarExpr ''x'')])"
    by code_simp
  have e: "parseBlock_of 13 stof ''{ return x return y }''
     = Some (Inl (runtime_error ''Expected `;` after statement''))"
    by code_simp
  show "?W stof"
    using parseStatement_terminator [of 8 stof ?rb] parseStatement_terminator [of 8 stof ?semi]
      parseStatement_terminator [of 8 stof ?other] a b b' c d e
    by (simp add: check_def)
qed

text \<open>
  C6.  The specification expects the empty char literal \<^verbatim>\<open>''\<close> to raise a lexer error
  with the message "Empty char literal".  \<^verbatim>\<open>nextToken\<close> has no case for the quote
  character (\<^verbatim>\<open>Lexer::_char\<close> is declared and never defined), so the error raised is
  "Unexpected character: '".
\<close>

theorem nextToken_empty_char_literal:
  "nextToken (Lexer_ctor [CHR 0x27, CHR 0x27])
     = Inl (Lexer_exn (LexerError (''Unexpected character: '' @ [CHR 0x27]) 1 1
                         [CHR 0x27, CHR 0x27]),
            \<lparr>source = [CHR 0x27, CHR 0x27], pos = 1, line = 1, col = 2\<rparr>)"
  by code_simp

lemma isdigit_not_other:
  "isdigit c \<Longrightarrow>
     \<not> isspace c \<and> \<not> isalpha c \<and> c \<noteq> CHR 0x0A \<and> c \<noteq> CHR 0x09 \<and> c \<noteq> CHR 0x00
     \<and> c \<noteq> CHR ''_'' \<and> c \<noteq> CHR 0x22
     \<and> c \<noteq> CHR ''('' \<and> c \<noteq> CHR '')'' \<and> c \<noteq> CHR ''{'' \<and> c \<noteq> CHR ''}''
     \<and> c \<noteq> CHR '','' \<and> c \<noteq> CHR '':'' \<and> c \<noteq> CHR '';'' \<and> c \<noteq> CHR ''+''
     \<and> c \<noteq> CHR ''-'' \<and> c \<noteq> CHR ''*'' \<and> c \<noteq> CHR ''/'' \<and> c \<noteq> CHR ''=''
     \<and> c \<noteq> CHR ''!'' \<and> c \<noteq> CHR ''<'' \<and> c \<noteq> CHR ''>'' \<and> c \<noteq> CHR ''.''"
  by (auto simp: isdigit_def isspace_def isalpha_def)

lemma dot_not_other:
  "\<not> isspace CHR ''.'' \<and> \<not> isalpha CHR ''.'' \<and> \<not> isdigit CHR ''.''"
  by (simp add: isdigit_def isspace_def isalpha_def)

lemma skipWhitespaceAndComments_stop:
  "\<not> isspace (peek lx 0) \<Longrightarrow> peek lx 0 \<noteq> CHR ''/'' \<Longrightarrow> skipWhitespaceAndComments lx = Inr lx"
  by (subst skipWhitespaceAndComments.simps) (simp add: Let_def)

lemma Lexer_advance_plain:
  "pos lx < length (source lx) \<Longrightarrow> source lx ! pos lx = c \<Longrightarrow> c \<noteq> CHR 0x0A \<Longrightarrow> c \<noteq> CHR 0x09
   \<Longrightarrow> Lexer_advance lx = (c, lx\<lparr>pos := pos lx + 1, col := col lx + 1\<rparr>)"
  by (simp add: Lexer_advance_def Let_def)

lemma digits_loop_span:
  assumes "\<forall>c\<in>set ds. isdigit c" and "rest = [] \<or> \<not> isdigit (hd rest)"
  shows "source lx = pre @ ds @ rest \<Longrightarrow> pos lx = length pre \<Longrightarrow>
         digits_loop lx = lx\<lparr>pos := length pre + length ds, col := col lx + int (length ds)\<rparr>"
  using assms(1)
proof (induction ds arbitrary: pre lx)
  case Nil
  have "\<not> isdigit (peek lx 0)"
  proof (cases rest)
    case Nil
    with Nil.prems have "peek lx 0 = CHR 0x00" by (simp add: peek_def)
    then show ?thesis by (simp add: isdigit_def)
  next
    case (Cons r rs)
    with Nil.prems have "peek lx 0 = r" by (simp add: peek_def)
    with assms(2) Cons show ?thesis by simp
  qed
  then have "digits_loop lx = lx" by (subst digits_loop.simps) simp
  with Nil.prems show ?case by simp
next
  case (Cons d ds)
  from Cons.prems have pk: "peek lx 0 = d" by (simp add: peek_def)
  from Cons.prems have dg: "isdigit d" by simp
  have adv: "Lexer_advance lx = (d, lx\<lparr>pos := pos lx + 1, col := col lx + 1\<rparr>)"
    using Cons.prems isdigit_not_other [OF dg]
    by (intro Lexer_advance_plain) simp_all
  let ?lx1 = "lx\<lparr>pos := pos lx + 1, col := col lx + 1\<rparr>"
  have "digits_loop lx = digits_loop ?lx1"
    using pk dg adv by (subst digits_loop.simps) simp
  also have "\<dots> = ?lx1\<lparr>pos := length (pre @ [d]) + length ds,
                          col := col ?lx1 + int (length ds)\<rparr>"
    using Cons.prems by (intro Cons.IH) simp_all
  finally show ?case by simp
qed

lemma number_digits_then_dot:
  assumes "\<forall>c\<in>set ds. isdigit c" and "rest = [] \<or> \<not> isdigit (hd rest)"
  shows "number \<lparr>source = ds @ CHR ''.'' # rest, pos = 0, line = l, col = k\<rparr>
           = (Token T_Integer ds l k,
              \<lparr>source = ds @ CHR ''.'' # rest, pos = length ds, line = l,
                 col = k + int (length ds)\<rparr>)"
proof -
  let ?src = "ds @ CHR ''.'' # rest"
  let ?lx = "\<lparr>source = ?src, pos = 0, line = l, col = k\<rparr>"
  let ?lx1 = "\<lparr>source = ?src, pos = length ds, line = l, col = k + int (length ds)\<rparr>"
  have "digits_loop ?lx = ?lx\<lparr>pos := length ([]::string) + length ds,
                                  col := col ?lx + int (length ds)\<rparr>"
    using assms(1) by (intro digits_loop_span [where rest = "CHR ''.'' # rest"])
                      (simp_all add: dot_not_other)
  then have dl: "digits_loop ?lx = ?lx1" by simp
  have p0: "peek ?lx1 0 = CHR ''.''" by (simp add: peek_def)
  have p1: "\<not> isdigit (peek ?lx1 1)"
  proof (cases rest)
    case Nil
    then show ?thesis by (simp add: peek_def isdigit_def)
  next
    case (Cons r rs)
    then have "peek ?lx1 1 = r" by (simp add: peek_def nth_append)
    with assms(2) Cons show ?thesis by simp
  qed
  show ?thesis
    using p0 p1 by (simp add: number_def Let_def dl substr_def del: One_nat_def)
qed

text \<open>
  C7 as the specification states it expects the stray \<open>.\<close> to surface as an error of the
  parser and not of the lexer.  On \<^verbatim>\<open>1.\<close> the second \<open>nextToken\<close> throws a
  \<open>LexerError\<close>, and that is the exception that parsing \<^verbatim>\<open>1.\<close> as an expression ends in.
\<close>

theorem stray_dot_is_a_lexer_error:
  "nextToken (Lexer_ctor ''1.'')
     = Inr (Token T_Integer ''1'' 1 2, \<lparr>source = ''1.'', pos = 1, line = 1, col = 3\<rparr>)
   \<and> nextToken \<lparr>source = ''1.'', pos = 1, line = 1, col = 3\<rparr>
     = Inl (Lexer_exn (LexerError ''Unexpected character: .'' 1 3 ''1.''),
            \<lparr>source = ''1.'', pos = 2, line = 1, col = 4\<rparr>)
   \<and> (\<forall>stof. parseExpression_of 6 stof ''1.''
     = Some (Inl (Lexer_exn (LexerError ''Unexpected character: .'' 1 3 ''1.''))))"
  by (intro conjI allI; code_simp)

text \<open>
  C7 as amended.  On a text that begins with one or more digits and a \<open>.\<close> that no digit
  follows, the first \<open>nextToken\<close> returns an Integer token whose lexeme is the digits and
  leaves the lexer in front of the \<open>.\<close>; the next \<open>nextToken\<close> throws the lexer's own
  error "Unexpected character: .".
\<close>

theorem nextToken_digits_then_dot:
  assumes "ds \<noteq> []" and "\<forall>c\<in>set ds. isdigit c" and "rest = [] \<or> \<not> isdigit (hd rest)"
  shows "\<exists>lx1. nextToken (Lexer_ctor (ds @ CHR ''.'' # rest)) = Inr (Token T_Integer ds 1 2, lx1)
           \<and> pos lx1 = length ds \<and> peek lx1 0 = CHR ''.''
           \<and> (\<exists>e lx2. nextToken lx1 = Inl (Lexer_exn e, lx2)
                        \<and> message e = ''Unexpected character: .'')"
proof -
  let ?src = "ds @ CHR ''.'' # rest"
  let ?lx0 = "Lexer_ctor ?src"
  let ?lx1 = "\<lparr>source = ?src, pos = length ds, line = 1, col = 2 + int (length ds)\<rparr>"
  from assms(1) obtain d ds' where ds: "ds = d # ds'" by (cases ds) auto
  with assms(2) have dg: "isdigit d" by simp
  note nd = isdigit_not_other [OF dg]
  have pk0: "peek ?lx0 0 = d" by (simp add: peek_def Lexer_ctor_def ds)
  have sk0: "skipWhitespaceAndComments ?lx0 = Inr ?lx0"
    using pk0 nd by (intro skipWhitespaceAndComments_stop) simp_all
  have adv0: "Lexer_advance ?lx0 = (d, ?lx0\<lparr>pos := pos ?lx0 + 1, col := col ?lx0 + 1\<rparr>)"
    using nd by (intro Lexer_advance_plain) (simp_all add: Lexer_ctor_def ds)
  have num: "number \<lparr>source = ?src, pos = 0, line = 1, col = 2\<rparr> = (Token T_Integer ds 1 2, ?lx1)"
    using number_digits_then_dot [OF assms(2,3), of 1 2] by simp
  have first: "nextToken ?lx0 = Inr (Token T_Integer ds 1 2, ?lx1)"
    unfolding nextToken_def sk0 sum.case adv0 prod.case Let_def
    using nd dg num by (simp add: Lexer_ctor_def)
  have pk1: "peek ?lx1 0 = CHR ''.''" by (simp add: peek_def)
  have sk1: "skipWhitespaceAndComments ?lx1 = Inr ?lx1"
    using pk1 by (intro skipWhitespaceAndComments_stop) (simp_all add: dot_not_other)
  have adv1: "Lexer_advance ?lx1 = (CHR ''.'', ?lx1\<lparr>pos := pos ?lx1 + 1, col := col ?lx1 + 1\<rparr>)"
    by (intro Lexer_advance_plain) simp_all
  have second: "\<exists>e lx2. nextToken ?lx1 = Inl (Lexer_exn e, lx2)
                         \<and> message e = ''Unexpected character: .''"
    unfolding nextToken_def sk1 sum.case adv1 prod.case Let_def
    by (simp add: dot_not_other Lexer_error_def Lexer_throw_def)
  from first pk1 second show ?thesis by auto
qed

theorem nextToken_digits_then_dot_witness:
  "\<exists>lx1. nextToken (Lexer_ctor ''1.'') = Inr (Token T_Integer ''1'' 1 2, lx1)
           \<and> pos lx1 = 1 \<and> peek lx1 0 = CHR ''.''
           \<and> (\<exists>e lx2. nextToken lx1 = Inl (Lexer_exn e, lx2)
                        \<and> message e = ''Unexpected character: .'')"
  using nextToken_digits_then_dot [of "''1''" "[]"] by (simp add: isdigit_def)

lemma parseExpression_true_false:
  "parseExpression_of (Suc (Suc (Suc (Suc (Suc (Suc (Suc n))))))) stof ''true''
     = Some (Inr (VarExpr ''true''))"
  "parseExpression_of (Suc (Suc (Suc (Suc (Suc (Suc (Suc n))))))) stof ''false''
     = Some (Inr (VarExpr ''false''))"
  by code_simp+

text \<open>
  C8.  The specification expects \<^verbatim>\<open>true\<close> and \<^verbatim>\<open>false\<close> to lex as Bool tokens and to
  parse to \<open>BoolExpr\<close>.  The keyword table has neither, so both are Identifier tokens,
  and with fuel 7 or more they parse to variables.
\<close>

theorem true_false_are_identifiers:
  "nextToken (Lexer_ctor ''true'')
     = Inr (Token T_Identifier ''true'' 1 2, \<lparr>source = ''true'', pos = 4, line = 1, col = 6\<rparr>)
   \<and> nextToken (Lexer_ctor ''false'')
     = Inr (Token T_Identifier ''false'' 1 2, \<lparr>source = ''false'', pos = 5, line = 1, col = 7\<rparr>)
   \<and> parseExpression_of (n + 7) stof ''true'' = Some (Inr (VarExpr ''true''))
   \<and> parseExpression_of (n + 7) stof ''false'' = Some (Inr (VarExpr ''false''))"
proof -
  have t: "nextToken (Lexer_ctor ''true'')
     = Inr (Token T_Identifier ''true'' 1 2, \<lparr>source = ''true'', pos = 4, line = 1, col = 6\<rparr>)"
    by code_simp
  have f: "nextToken (Lexer_ctor ''false'')
     = Inr (Token T_Identifier ''false'' 1 2, \<lparr>source = ''false'', pos = 5, line = 1, col = 7\<rparr>)"
    by code_simp
  have "n + 7 = Suc (Suc (Suc (Suc (Suc (Suc (Suc n))))))" by simp
  then have "parseExpression_of (n + 7) stof ''true'' = Some (Inr (VarExpr ''true''))"
    and "parseExpression_of (n + 7) stof ''false'' = Some (Inr (VarExpr ''false''))"
    by (simp_all only: parseExpression_true_false)
  with t f show ?thesis by blast
qed

text \<open>
  The tab expansion in the words of the specification: each tab becomes spaces up to the
  next 4-column stop.  \<open>spec_expandTabs_from k\<close> expands a text that starts in column \<open>k\<close>
  (counted from 0).
\<close>

fun spec_expandTabs_from :: "nat \<Rightarrow> string \<Rightarrow> string" where
  "spec_expandTabs_from k [] = []"
| "spec_expandTabs_from k (x # xs) =
     (if x = CHR 0x09
      then replicate (4 - k mod 4) CHR '' '' @ spec_expandTabs_from (k + (4 - k mod 4)) xs
      else x # spec_expandTabs_from (k + 1) xs)"

definition spec_expandTabs :: "string \<Rightarrow> string" where
  "spec_expandTabs srcLine = spec_expandTabs_from 0 srcLine"

text \<open>A text with the \<open>i\<close>-th character, when it is a tab, replaced by \<open>ws ! i\<close> spaces.\<close>

definition tabs_as_spaces :: "string \<Rightarrow> nat list \<Rightarrow> string" where
  "tabs_as_spaces srcLine ws =
     concat (map (\<lambda>(x, w). if x = CHR 0x09 then replicate w CHR '' '' else [x]) (zip srcLine ws))"

lemma expandTabs_tabs_as_spaces:
  "expandTabs srcLine = tabs_as_spaces srcLine (replicate (length srcLine) 4)"
  by (induction srcLine) (simp_all add: tabs_as_spaces_def)

lemma visualColumn_loop_stops:
  "visualColumn_loop srcLine c i v
     = v + length (spec_expandTabs_from v (take (nat (c - 1 - int i)) srcLine))"
proof (induction srcLine arbitrary: i v)
  case Nil
  show ?case by simp
next
  case (Cons x xs)
  show ?case
  proof (cases "int i < c - 1")
    case False
    then have "nat (c - 1 - int i) = 0" by simp
    with False show ?thesis by simp
  next
    case True
    let ?m = "nat (c - 1 - int (i + 1))"
    let ?v = "if x = CHR 0x09 then v + (4 - v mod 4) else v + 1"
    from True have m: "nat (c - 1 - int i) = Suc ?m" by simp
    from True have "visualColumn_loop (x # xs) c i v = visualColumn_loop xs c (i + 1) ?v"
      by (simp only: visualColumn_loop.simps if_True)
    also have "\<dots> = ?v + length (spec_expandTabs_from ?v (take ?m xs))"
      by (rule Cons.IH)
    also have "\<dots> = v + length (spec_expandTabs_from v (take (Suc ?m) (x # xs)))"
    proof (cases "x = CHR 0x09")
      case True
      then show ?thesis
        by (simp only: simp_thms if_True take_Suc_Cons spec_expandTabs_from.simps
              length_append length_replicate add.assoc)
    next
      case False
      then show ?thesis by simp
    qed
    finally show ?thesis by (simp only: m)
  qed
qed

lemma visualColumn_stops:
  "visualColumn srcLine c = length (spec_expandTabs (take (nat (c - 1)) srcLine))"
  by (simp add: visualColumn_def spec_expandTabs_def visualColumn_loop_stops)

text \<open>
  C9 as the specification states it expects the first line to begin with "Lex error" or
  "Parse error", the tabs of the source line to be expanded to the next 4-column stop, and
  the caret to stand under the offending column of the displayed line.  For column 3 of
  the line \<open>a\<close>, tab, \<open>b\<close> the first line begins with "Lexer error", the tab is shown as
  four spaces where the next stop is three spaces away, which puts \<open>b\<close> at offset 5, and
  the caret stands at offset 4.
\<close>

theorem formatMessage_tab_mismatch:
  "formatMessage (LexerError ''m'' 1 3 [CHR ''a'', CHR 0x09, CHR ''b''])
     = ''Lexer error at line 1, col 3: m\<newline>a    b\<newline>    ^''
   \<and> formatMessage (LexerError ''m'' 1 3 [CHR ''a'', CHR 0x09, CHR ''b''])
     \<noteq> ''Lex error at line 1, col 3: m\<newline>a   b\<newline>    ^''
   \<and> expandTabs [CHR ''a'', CHR 0x09, CHR ''b''] = ''a    b''
   \<and> spec_expandTabs [CHR ''a'', CHR 0x09, CHR ''b''] = ''a   b''
   \<and> visualColumn [CHR ''a'', CHR 0x09, CHR ''b''] 3 = 4
   \<and> expandTabs [CHR ''a'', CHR 0x09, CHR ''b''] ! 4 = CHR '' ''
   \<and> expandTabs [CHR ''a'', CHR 0x09, CHR ''b''] ! 5 = CHR ''b''"
  by code_simp

text \<open>
  C9 as amended.  The message of a \<open>LexerError\<close> is the line
  "Lexer error at line L, col C: message" and, when the error carries a source line that
  is not empty, a display of that line in which each tab is replaced by one or more
  spaces and every other character is kept, then a line of spaces and a caret.  The
  number of spaces before the caret is the visually expanded column of \<open>C\<close>: the width of
  the characters before column \<open>C\<close> when each tab among them reaches to the next 4-column
  stop.
\<close>

theorem formatMessage_layout:
  "\<exists>ws. length ws = length srcLine \<and> (\<forall>w\<in>set ws. 0 < w)
     \<and> formatMessage (LexerError msg l c srcLine)
         = ''Lexer error at line '' @ show_int l @ '', col '' @ show_int c @ '': '' @ msg
             @ [CHR 0x0A]
             @ (if srcLine = [] then []
                else tabs_as_spaces srcLine ws @ [CHR 0x0A]
                     @ replicate (length (spec_expandTabs (take (nat (c - 1)) srcLine))) CHR '' ''
                     @ ''^'')"
proof (intro exI conjI)
  show "length (replicate (length srcLine) (4::nat)) = length srcLine" by simp
  show "\<forall>w\<in>set (replicate (length srcLine) (4::nat)). 0 < w" by simp
  show "formatMessage (LexerError msg l c srcLine)
         = ''Lexer error at line '' @ show_int l @ '', col '' @ show_int c @ '': '' @ msg
             @ [CHR 0x0A]
             @ (if srcLine = [] then []
                else tabs_as_spaces srcLine (replicate (length srcLine) 4) @ [CHR 0x0A]
                     @ replicate (length (spec_expandTabs (take (nat (c - 1)) srcLine))) CHR '' ''
                     @ ''^'')"
    by (simp add: formatMessage_def expandTabs_tabs_as_spaces [symmetric] visualColumn_stops)
qed

theorem formatMessage_layout_witness:
  "\<exists>w. 0 < w
     \<and> formatMessage (LexerError ''m'' 1 3 [CHR ''a'', CHR 0x09, CHR ''b''])
         = ''Lexer error at line 1, col 3: m'' @ [CHR 0x0A]
             @ ''a'' @ replicate w CHR '' '' @ ''b'' @ [CHR 0x0A]
             @ ''    ^''"
proof -
  let ?srcLine = "[CHR ''a'', CHR 0x09, CHR ''b'']"
  from formatMessage_layout [of ?srcLine "''m''" 1 3]
  obtain ws where len: "length ws = length ?srcLine" and pos: "\<forall>w\<in>set ws. 0 < w"
    and fm: "formatMessage (LexerError ''m'' 1 3 ?srcLine)
         = ''Lexer error at line '' @ show_int 1 @ '', col '' @ show_int 3 @ '': '' @ ''m''
             @ [CHR 0x0A]
             @ (if ?srcLine = [] then []
                else tabs_as_spaces ?srcLine ws @ [CHR 0x0A]
                     @ replicate (length (spec_expandTabs (take (nat (3 - 1)) ?srcLine))) CHR '' ''
                     @ ''^'')"
    by blast
  from len obtain w0 w1 w2 where ws: "ws = [w0, w1, w2]"
    by (cases ws; simp) (metis Suc_length_conv length_0_conv)
  have one: "show_int 1 = ''1''" and three: "show_int 3 = ''3''" by code_simp+
  have caret: "replicate (length (spec_expandTabs (take (nat (3 - 1)) ?srcLine))) CHR '' ''
                 = ''    ''"
    by code_simp
  have disp: "tabs_as_spaces ?srcLine ws = ''a'' @ replicate w1 CHR '' '' @ ''b''"
    by (simp add: ws tabs_as_spaces_def)
  from pos ws have "0 < w1" by simp
  moreover have "formatMessage (LexerError ''m'' 1 3 ?srcLine)
         = ''Lexer error at line 1, col 3: m'' @ [CHR 0x0A]
             @ ''a'' @ replicate w1 CHR '' '' @ ''b'' @ [CHR 0x0A]
             @ ''    ^''"
    unfolding fm one three caret disp by simp
  ultimately show ?thesis by blast
qed

text \<open>
  C10 as the specification states it holds for every lexer state.  On the text of two
  spaces and \<open>@\<close>, \<open>peekToken\<close> throws, and the lexer is left at position 3, column 4, not
  at position 0, column 1 where it was; a \<open>nextToken\<close> that follows returns the end of
  input.
\<close>

theorem peekToken_throw_moves_cursor:
  "Lexer_ctor ''  @'' = \<lparr>source = ''  @'', pos = 0, line = 1, col = 1\<rparr>
   \<and> peekToken (Lexer_ctor ''  @'')
     = Inl (Lexer_exn (LexerError ''Unexpected character: @'' 1 3 ''  @''),
            \<lparr>source = ''  @'', pos = 3, line = 1, col = 4\<rparr>)
   \<and> nextToken \<lparr>source = ''  @'', pos = 3, line = 1, col = 4\<rparr>
     = Inr (Token T_Eof [] 1 4, \<lparr>source = ''  @'', pos = 3, line = 1, col = 4\<rparr>)"
  by code_simp

text \<open>
  C10 as amended.  When \<open>nextToken\<close> returns a token, \<open>peekToken\<close> returns that token
  together with the lexer it was given: position, line and column are as before the
  call, so a \<open>nextToken\<close> that follows returns that token again.  When \<open>nextToken\<close>
  throws, \<open>peekToken\<close> throws the same exception and leaves the lexer as \<open>nextToken\<close>
  left it.
\<close>

theorem peekToken_lookahead:
  "peekToken lx =
     (case nextToken lx of
        Inl (e, lx1) \<Rightarrow> Inl (e, lx1)
      | Inr (tok, lx1) \<Rightarrow> Inr (tok, lx))"
proof (cases "nextToken lx")
  case (Inl p)
  then show ?thesis by (simp add: peekToken_def split: prod.splits)
next
  case (Inr p)
  obtain tok lx' where p: "p = (tok, lx')" by (cases p)
  have "source lx' = source lx" using Inr p by (auto dest: nextToken_source)
  then have "lx'\<lparr>pos := pos lx, line := line lx, col := col lx\<rparr> = lx" by simp
  with Inr p show ?thesis by (simp add: peekToken_def)
qed

theorem peekToken_lookahead_witness:
  "peekToken (Lexer_ctor ''  fn id'') = Inr (Token T_Fn ''fn'' 1 4, Lexer_ctor ''  fn id'')
   \<and> nextToken (Lexer_ctor ''  fn id'')
       = Inr (Token T_Fn ''fn'' 1 4, \<lparr>source = ''  fn id'', pos = 4, line = 1, col = 6\<rparr>)
   \<and> peekToken (Lexer_ctor ''  @'')
       = Inl (Lexer_exn (LexerError ''Unexpected character: @'' 1 3 ''  @''),
              \<lparr>source = ''  @'', pos = 3, line = 1, col = 4\<rparr>)"
proof -
  have nt: "nextToken (Lexer_ctor ''  fn id'')
       = Inr (Token T_Fn ''fn'' 1 4, \<lparr>source = ''  fn id'', pos = 4, line = 1, col = 6\<rparr>)"
    by code_simp
  have th: "nextToken (Lexer_ctor ''  @'')
       = Inl (Lexer_exn (LexerError ''Unexpected character: @'' 1 3 ''  @''),
              \<lparr>source = ''  @'', pos = 3, line = 1, col = 4\<rparr>)"
    by code_simp
  from nt th show ?thesis by (simp add: peekToken_lookahead)
qed

end
